theory Spec2Isabelle
  imports Main "HOL-Library.Sublist"
begin

section \<open>Data model (types file of the SDK)\<close>

text \<open>
  Values that \<^verbatim>\<open>encoding/json\<close> stores in an \<^verbatim>\<open>interface{}\<close>. Numbers are kept as
  their literal text; the conversion to \<^verbatim>\<open>float64\<close> is not part of the model.
\<close>

datatype json_value =
    JNull
  | JBool bool
  | JNumber string
  | JString string
  | JArray "json_value list"
  | JObject "(string \<times> json_value) list"

text \<open>
  \<^verbatim>\<open>TaskStatus\<close>: the two \<^verbatim>\<open>*string\<close> fields are options (\<open>None\<close> is the nil pointer);
  a nil slice and a nil map are the empty list.
\<close>

record TaskStatus =
  TaskID :: string
  Status :: string
  Result :: "string option"
  Error :: "string option"
  Warnings :: "string list"
  Metadata :: "(string \<times> json_value) list"

definition TaskStatus0 :: TaskStatus where
  "TaskStatus0 = \<lparr>TaskID = [], Status = [], Result = None, Error = None,
                   Warnings = [], Metadata = []\<rparr>"

record TaskSubmissionOptions =
  ModelID :: string
  Silent :: bool
  Mock :: bool
  VercelAIKey :: string
  OptMetadata :: "(string \<times> json_value) list"

text \<open>
  Go \<^verbatim>\<open>error\<close> values. \<open>Errorf m\<close> is what \<^verbatim>\<open>fmt.Errorf\<close> builds in this package, with
  message \<open>m\<close>; the others are the sentinel errors of \<^verbatim>\<open>context\<close> and \<^verbatim>\<open>io\<close>, and
  \<open>LibError m\<close> stands for any other error a library call reports.
\<close>

datatype error =
    Errorf string
  | context_Canceled
  | context_DeadlineExceeded
  | io_EOF
  | LibError string

fun Error_text :: "error \<Rightarrow> string" where
  "Error_text (Errorf m) = m"
| "Error_text context_Canceled = ''context canceled''"
| "Error_text context_DeadlineExceeded = ''context deadline exceeded''"
| "Error_text io_EOF = ''EOF''"
| "Error_text (LibError m) = m"

section \<open>Library functions the client calls\<close>

subsection \<open>\<^verbatim>\<open>strings.TrimSpace\<close> and \<^verbatim>\<open>strings.HasPrefix\<close>\<close>

text \<open>
  Go strings are byte sequences. \<^verbatim>\<open>TrimSpace\<close> removes leading and trailing white space
  as \<^verbatim>\<open>unicode.IsSpace\<close> defines it: six ASCII characters and the UTF-8 encodings of
  U+0085, U+00A0, U+1680, U+2000 to U+200A, U+2028, U+2029, U+202F, U+205F and U+3000.
\<close>

definition space_runes :: "string list" where
  "space_runes =
    [[CHR 0x09], [CHR 0x0A], [CHR 0x0B], [CHR 0x0C], [CHR 0x0D], [CHR 0x20],
     [CHR 0xC2, CHR 0x85], [CHR 0xC2, CHR 0xA0],
     [CHR 0xE1, CHR 0x9A, CHR 0x80],
     [CHR 0xE2, CHR 0x80, CHR 0x80], [CHR 0xE2, CHR 0x80, CHR 0x81],
     [CHR 0xE2, CHR 0x80, CHR 0x82], [CHR 0xE2, CHR 0x80, CHR 0x83],
     [CHR 0xE2, CHR 0x80, CHR 0x84], [CHR 0xE2, CHR 0x80, CHR 0x85],
     [CHR 0xE2, CHR 0x80, CHR 0x86], [CHR 0xE2, CHR 0x80, CHR 0x87],
     [CHR 0xE2, CHR 0x80, CHR 0x88], [CHR 0xE2, CHR 0x80, CHR 0x89],
     [CHR 0xE2, CHR 0x80, CHR 0x8A],
     [CHR 0xE2, CHR 0x80, CHR 0xA8], [CHR 0xE2, CHR 0x80, CHR 0xA9],
     [CHR 0xE2, CHR 0x80, CHR 0xAF],
     [CHR 0xE2, CHR 0x81, CHR 0x9F],
     [CHR 0xE3, CHR 0x80, CHR 0x80]]"

definition HasPrefix :: "string \<Rightarrow> string \<Rightarrow> bool" where
  "HasPrefix s p = (take (length p) s = p)"

definition HasSuffix :: "string \<Rightarrow> string \<Rightarrow> bool" where
  "HasSuffix s p = (length p \<le> length s \<and> drop (length s - length p) s = p)"

text \<open>The number of bytes of the white-space rune \<open>s\<close> starts (ends) with; 0 if none.\<close>

definition leading_space :: "string \<Rightarrow> nat" where
  "leading_space s = (case filter (HasPrefix s) space_runes of [] \<Rightarrow> 0 | p # _ \<Rightarrow> length p)"

definition trailing_space :: "string \<Rightarrow> nat" where
  "trailing_space s = (case filter (HasSuffix s) space_runes of [] \<Rightarrow> 0 | p # _ \<Rightarrow> length p)"


lemma leading_space_le: "leading_space s \<le> length s"
proof (cases "filter (HasPrefix s) space_runes")
  case Nil
  then show ?thesis by (simp add: leading_space_def)
next
  case (Cons p ps)
  then have "p \<in> set (filter (HasPrefix s) space_runes)" by simp
  then have "take (length p) s = p" by (simp add: HasPrefix_def)
  then have "length (take (length p) s) = length p" by simp
  then have "length p \<le> length s" by simp
  with Cons show ?thesis by (simp add: leading_space_def)
qed

lemma trailing_space_le: "trailing_space s \<le> length s"
proof (cases "filter (HasSuffix s) space_runes")
  case Nil
  then show ?thesis by (simp add: trailing_space_def)
next
  case (Cons p ps)
  then have "p \<in> set (filter (HasSuffix s) space_runes)" by simp
  then have "length p \<le> length s" by (simp add: HasSuffix_def)
  with Cons show ?thesis by (simp add: trailing_space_def)
qed

lemma leading_space_pos: "leading_space s \<noteq> 0 \<Longrightarrow> s \<noteq> []"
  using leading_space_le [of s] by auto

lemma trailing_space_pos: "trailing_space s \<noteq> 0 \<Longrightarrow> s \<noteq> []"
  using trailing_space_le [of s] by auto

function TrimLeftSpace :: "string \<Rightarrow> string" where
  "TrimLeftSpace s =
     (if leading_space s = 0 then s else TrimLeftSpace (drop (leading_space s) s))"
  by pat_completeness auto
termination
proof (relation "measure length")
  fix s :: string
  assume "leading_space s \<noteq> 0"
  with leading_space_le [of s]
  show "(drop (leading_space s) s, s) \<in> measure length" by simp
qed simp

function TrimRightSpace :: "string \<Rightarrow> string" where
  "TrimRightSpace s =
     (if trailing_space s = 0 then s
      else TrimRightSpace (take (length s - trailing_space s) s))"
  by pat_completeness auto
termination
proof (relation "measure length")
  fix s :: string
  assume "trailing_space s \<noteq> 0"
  with trailing_space_le [of s]
  show "(take (length s - trailing_space s) s, s) \<in> measure length" by simp
qed simp

declare TrimLeftSpace.simps [simp del] TrimRightSpace.simps [simp del]

definition TrimSpace :: "string \<Rightarrow> string" where
  "TrimSpace s = TrimRightSpace (TrimLeftSpace s)"

subsection \<open>\<^verbatim>\<open>bufio.Reader.ReadString\<close>\<close>

text \<open>
  A response body being read: \<open>pending\<close> holds the bytes the connection delivers before it
  ends, \<open>at_end\<close> the error the read reports once they are used up (\<^verbatim>\<open>io.EOF\<close> when the
  server closed the connection in order).
\<close>

record reader =
  pending :: string
  at_end :: error

text \<open>
  \<^verbatim>\<open>ReadString('\n')\<close> returns the bytes up to and including the first newline. If the
  input ends before a newline, it returns what it read together with the error.
\<close>

definition ReadString :: "reader \<Rightarrow> (string \<times> error option) \<times> reader" where
  "ReadString r =
     (if CHR 0x0A \<in> set (pending r)
      then ((takeWhile (\<lambda>c. c \<noteq> CHR 0x0A) (pending r) @ [CHR 0x0A], None),
            r\<lparr>pending := tl (dropWhile (\<lambda>c. c \<noteq> CHR 0x0A) (pending r))\<rparr>)
      else ((pending r, Some (at_end r)), r\<lparr>pending := []\<rparr>))"

lemma ReadString_shorter:
  "snd (fst (ReadString r)) = None \<Longrightarrow> length (pending (snd (ReadString r))) < length (pending r)"
proof -
  assume a: "snd (fst (ReadString r)) = None"
  then have nl: "CHR 0x0A \<in> set (pending r)"
    by (auto simp: ReadString_def split: if_splits)
  then have "dropWhile (\<lambda>c. c \<noteq> CHR 0x0A) (pending r) \<noteq> []" by simp
  then have "length (tl (dropWhile (\<lambda>c. c \<noteq> CHR 0x0A) (pending r)))
             < length (dropWhile (\<lambda>c. c \<noteq> CHR 0x0A) (pending r))"
    by (cases "dropWhile (\<lambda>c. c \<noteq> CHR 0x0A) (pending r)") auto
  also have "\<dots> \<le> length (pending r)" by (rule length_dropWhile_le)
  finally show ?thesis using nl by (simp add: ReadString_def)
qed

subsection \<open>The verb \<^verbatim>\<open>%d\<close> of \<^verbatim>\<open>fmt\<close>\<close>

function itoa :: "nat \<Rightarrow> string" where
  "itoa n = (if n < 10 then [''0123456789'' ! n]
             else itoa (n div 10) @ [''0123456789'' ! (n mod 10)])"
  by pat_completeness auto
termination
  by (relation "measure id") auto

declare itoa.simps [simp del]

definition fmt_d :: "int \<Rightarrow> string" where
  "fmt_d i = (if i < 0 then CHR ''-'' # itoa (nat (- i)) else itoa (nat i))"

section \<open>The world the client runs in\<close>

text \<open>
  An HTTP request as \<^verbatim>\<open>doRequest\<close> builds it (\<open>ReqHeader\<close> holds the pairs given to
  \<^verbatim>\<open>Header.Set\<close>, in the order of the calls) and the parts of a response the client reads.
\<close>

record request =
  Method :: string
  URL :: string
  ReqHeader :: "(string \<times> string) list"
  ReqBody :: "string option"

record response =
  StatusCode :: int
  Header :: "(string \<times> string list) list"
  Body :: reader

text \<open>
  What the client does to the outside, in the order it does it: a round trip started with
  \<^verbatim>\<open>httpClient.Do\<close>, a call of the response hook, a call of the polling callback, a
  \<^verbatim>\<open>select\<close> on the context and a timer of the given duration.
\<close>

datatype event =
    RoundTrip request
  | ResponseHook int "(string \<times> string list) list"
  | Callback TaskStatus
  | Wait int

fun is_RoundTrip :: "event \<Rightarrow> bool" where
  "is_RoundTrip (RoundTrip _) = True"
| "is_RoundTrip _ = False"

fun is_Wait :: "event \<Rightarrow> bool" where
  "is_Wait (Wait _) = True"
| "is_Wait _ = False"

fun callback_of :: "event \<Rightarrow> TaskStatus list" where
  "callback_of (Callback s) = [s]"
| "callback_of _ = []"

definition round_trips :: "event list \<Rightarrow> nat" where
  "round_trips tr = length (filter is_RoundTrip tr)"

definition waits :: "event list \<Rightarrow> nat" where
  "waits tr = length (filter is_Wait tr)"

definition callbacks :: "event list \<Rightarrow> TaskStatus list" where
  "callbacks tr = concat (map callback_of tr)"

text \<open>The body \<^verbatim>\<open>SubmitTask\<close> hands to \<^verbatim>\<open>doRequest\<close>: the prompt, and the options if not nil.\<close>

datatype req_body = SubmitBody string "TaskSubmissionOptions option"

text \<open>
  The library calls whose results the client only passes on are parameters of the model:
  \<^item> \<open>json_Marshal\<close>: \<^verbatim>\<open>json.Marshal\<close> of a request body;
  \<^item> \<open>http_NewRequest\<close>: the error of \<^verbatim>\<open>http.NewRequestWithContext\<close> for a method and a URL,
    if any;
  \<^item> \<open>http_Do n req\<close>: what \<^verbatim>\<open>httpClient.Do\<close> returns for \<open>req\<close> when \<open>n\<close> round trips were
    made before;
  \<^item> \<open>select_Done n d\<close>: the outcome of the \<^verbatim>\<open>select\<close> between \<^verbatim>\<open>ctx.Done()\<close> and
    \<^verbatim>\<open>time.After(d)\<close> when \<open>n\<close> such waits were made before: \<open>Some e\<close> if the context is done
    first, with \<open>e\<close> the value of \<^verbatim>\<open>ctx.Err()\<close>, and \<open>None\<close> if the timer fires first;
  \<^item> the three JSON decoders, each from the bytes and the value the target holds before
    the call to the error or the value it holds after.
\<close>

record env =
  json_Marshal :: "req_body \<Rightarrow> error + string"
  http_NewRequest :: "string \<Rightarrow> string \<Rightarrow> error option"
  http_Do :: "nat \<Rightarrow> request \<Rightarrow> error + response"
  select_Done :: "nat \<Rightarrow> int \<Rightarrow> error option"
  json_Decode_TaskID :: "reader \<Rightarrow> string \<Rightarrow> error + string"
  json_Decode_TaskStatus :: "reader \<Rightarrow> TaskStatus \<Rightarrow> error + TaskStatus"
  json_Unmarshal_TaskStatus :: "string \<Rightarrow> TaskStatus \<Rightarrow> error + TaskStatus"

section \<open>The client (client.go)\<close>

text \<open>
  The \<^verbatim>\<open>Client\<close> struct. \<open>responseHook\<close> says whether a hook is set; the \<^verbatim>\<open>httpClient\<close> is
  \<open>http_Do\<close> of the environment.
\<close>

record Client =
  apiKey :: string
  baseURL :: string
  timeout :: int
  responseHook :: bool
  mockMode :: bool

definition DefaultPollInterval :: int where
  "DefaultPollInterval = 1000000000"

definition DefaultMaxPoll :: int where
  "DefaultMaxPoll = 60"

definition doRequest ::
  "Client \<Rightarrow> env \<Rightarrow> string \<Rightarrow> string \<Rightarrow> req_body option \<Rightarrow> event list
     \<Rightarrow> (error + response) \<times> event list" where
  "doRequest c env method path body tr =
     (let url = baseURL c @ path in
      case (case body of
              None \<Rightarrow> Inr None
            | Some b \<Rightarrow> (case json_Marshal env b of
                           Inl err \<Rightarrow> Inl err
                         | Inr jsonBody \<Rightarrow> Inr (Some jsonBody))) of
        Inl err \<Rightarrow> (Inl err, tr)
      | Inr bodyReader \<Rightarrow>
          (case http_NewRequest env method url of
             Some err \<Rightarrow> (Inl err, tr)
           | None \<Rightarrow>
               (let req = \<lparr>Method = method, URL = url,
                           ReqHeader =
                             [(''Content-Type'', ''application/json'')] @
                             (if apiKey c \<noteq> [] then [(''Authorization'', ''Bearer '' @ apiKey c)]
                              else []) @
                             [(''X-SDK-Language'', ''go'')],
                           ReqBody = bodyReader\<rparr>
                in case http_Do env (round_trips tr) req of
                     Inl err \<Rightarrow> (Inl err, tr @ [RoundTrip req])
                   | Inr resp \<Rightarrow>
                       (Inr resp,
                        tr @ [RoundTrip req] @
                        (if responseHook c then [ResponseHook (StatusCode resp) (Header resp)]
                         else [])))))"

definition SubmitTask ::
  "Client \<Rightarrow> env \<Rightarrow> string \<Rightarrow> TaskSubmissionOptions option \<Rightarrow> event list
     \<Rightarrow> (string \<times> error option) \<times> event list" where
  "SubmitTask c env prompt opts tr =
     (if prompt = [] then (([], Some (Errorf ''prompt is required'')), tr)
      else
        case doRequest c env ''POST'' ''/run'' (Some (SubmitBody prompt opts)) tr of
          (Inl err, tr1) \<Rightarrow> (([], Some err), tr1)
        | (Inr resp, tr1) \<Rightarrow>
            if StatusCode resp \<noteq> 200 \<and> StatusCode resp \<noteq> 202
            then (([], Some (Errorf (''failed to submit task: status '' @ fmt_d (StatusCode resp)))),
                  tr1)
            else
              (case json_Decode_TaskID env (Body resp) [] of
                 Inl err \<Rightarrow> (([], Some err), tr1)
               | Inr result_TaskID \<Rightarrow> ((result_TaskID, None), tr1)))"

definition GetTaskStatus ::
  "Client \<Rightarrow> env \<Rightarrow> string \<Rightarrow> event list \<Rightarrow> (TaskStatus \<times> error option) \<times> event list" where
  "GetTaskStatus c env taskID tr =
     (case doRequest c env ''GET'' (''/status/'' @ taskID) None tr of
        (Inl err, tr1) \<Rightarrow> ((TaskStatus0, Some err), tr1)
      | (Inr resp, tr1) \<Rightarrow>
          if StatusCode resp \<noteq> 200
          then ((TaskStatus0,
                 Some (Errorf (''failed to get task status: status '' @ fmt_d (StatusCode resp)))),
                tr1)
          else
            (case json_Decode_TaskStatus env (Body resp) TaskStatus0 of
               Inl err \<Rightarrow> ((TaskStatus0, Some err), tr1)
             | Inr status \<Rightarrow> ((status, None), tr1)))"

text \<open>
  The \<^verbatim>\<open>for\<close> loop of \<^verbatim>\<open>WaitForCompletion\<close>, from the value \<open>i\<close> of its counter. \<open>callback\<close>
  says whether a callback was passed; calling it is the event \<open>Callback status\<close>.
\<close>

function pollLoop ::
  "Client \<Rightarrow> env \<Rightarrow> string \<Rightarrow> int \<Rightarrow> int \<Rightarrow> bool \<Rightarrow> int \<Rightarrow> event list
     \<Rightarrow> (TaskStatus \<times> error option) \<times> event list" where
  "pollLoop c env taskID pollInterval maxAttempts callback i tr =
     (if i < maxAttempts then
        (let got = GetTaskStatus c env taskID tr;
             status = fst (fst got);
             tr1 = snd got
         in case snd (fst got) of
              Some err \<Rightarrow> ((TaskStatus0, Some err), tr1)
            | None \<Rightarrow>
                (let tr2 = (if callback then tr1 @ [Callback status] else tr1) in
                 if Status status = ''completed'' then ((status, None), tr2)
                 else if Status status = ''failed'' then
                   (let errMsg = (case Error status of None \<Rightarrow> ''task failed'' | Some m \<Rightarrow> m)
                    in ((status, Some (Errorf (''task failed: '' @ errMsg))), tr2))
                 else
                   (case select_Done env (waits tr2) pollInterval of
                      Some err \<Rightarrow> ((status, Some err), tr2 @ [Wait pollInterval])
                    | None \<Rightarrow>
                        pollLoop c env taskID pollInterval maxAttempts callback (i + 1)
                          (tr2 @ [Wait pollInterval]))))
      else ((TaskStatus0, Some (Errorf ''task timed out'')), tr))"
  by pat_completeness auto
termination
  by (relation "measure (\<lambda>(c, env, taskID, pollInterval, maxAttempts, callback, i, tr).
                           nat (maxAttempts - i))") auto

declare pollLoop.simps [simp del]

definition WaitForCompletion ::
  "Client \<Rightarrow> env \<Rightarrow> string \<Rightarrow> int \<Rightarrow> int \<Rightarrow> bool \<Rightarrow> event list
     \<Rightarrow> (TaskStatus \<times> error option) \<times> event list" where
  "WaitForCompletion c env taskID pollInterval maxAttempts callback tr =
     (let pollInterval = (if pollInterval = 0 then DefaultPollInterval else pollInterval);
          maxAttempts = (if maxAttempts = 0 then DefaultMaxPoll else maxAttempts)
      in pollLoop c env taskID pollInterval maxAttempts callback 0 tr)"

section \<open>The event stream (stream.go)\<close>

text \<open>
  The \<^verbatim>\<open>sseStream\<close> struct: \<open>ctx_Err\<close> is what \<^verbatim>\<open>s.ctx.Err()\<close> returns (\<open>None\<close> while the
  context is not done), \<open>bufreader\<close> the buffered reader over the response body. \<^verbatim>\<open>Next\<close>
  looks at the context at the start of every iteration of its loop, before it reads a
  line; the loop ends because every iteration that continues has used up a line.
\<close>

record sseStream =
  taskID :: string
  ctx_Err :: "error option"
  bufreader :: reader

function Next :: "env \<Rightarrow> sseStream \<Rightarrow> (TaskStatus \<times> error option) \<times> sseStream" where
  "Next env s =
     (case ctx_Err s of
        Some cerr \<Rightarrow> ((TaskStatus0, Some cerr), s)
      | None \<Rightarrow>
          (let rd = ReadString (bufreader s);
               s1 = s\<lparr>bufreader := snd rd\<rparr>
           in case snd (fst rd) of
                Some err \<Rightarrow> ((TaskStatus0, Some err), s1)
              | None \<Rightarrow>
                  (let line = TrimSpace (fst (fst rd)) in
                   if line = [] \<or> HasPrefix line '':'' then Next env s1
                   else if HasPrefix line ''data:'' then
                     (case json_Unmarshal_TaskStatus env (TrimSpace (drop 5 line)) TaskStatus0 of
                        Inl err \<Rightarrow> ((TaskStatus0, Some err), s1)
                      | Inr status \<Rightarrow> ((status, None), s1))
                   else Next env s1)))"
  by pat_completeness auto
termination
  by (relation "measure (\<lambda>(env, s). length (pending (bufreader s)))")
     (auto dest: ReadString_shorter)

declare Next.simps [simp del]

section \<open>Notions used in the statements\<close>

text \<open>
  The outcome of \<^verbatim>\<open>GetTaskStatus\<close> when \<open>n\<close> round trips were made before. It is the same
  for every trace with \<open>n\<close> round trips (lemma \<open>GetTaskStatus_fetch\<close>).
\<close>

definition status_fetch :: "Client \<Rightarrow> env \<Rightarrow> string \<Rightarrow> nat \<Rightarrow> TaskStatus \<times> error option" where
  "status_fetch c env tid n =
     fst (GetTaskStatus c env tid
            (replicate n (RoundTrip \<lparr>Method = [], URL = [], ReqHeader = [], ReqBody = None\<rparr>)))"

text \<open>
  A status that ends the polling neither way. \<open>pending_polls c env tid d n w ss\<close>: starting
  after \<open>n\<close> round trips and \<open>w\<close> waits, the next polls fetch the statuses \<open>ss\<close> in turn, none
  of them ends the polling, and the wait after each ends by the timer.
\<close>

definition non_terminal :: "TaskStatus \<Rightarrow> bool" where
  "non_terminal s = (Status s \<noteq> ''completed'' \<and> Status s \<noteq> ''failed'')"

fun pending_polls ::
  "Client \<Rightarrow> env \<Rightarrow> string \<Rightarrow> int \<Rightarrow> nat \<Rightarrow> nat \<Rightarrow> TaskStatus list \<Rightarrow> bool" where
  "pending_polls c env tid d n w [] = True"
| "pending_polls c env tid d n w (s # ss) =
     (status_fetch c env tid n = (s, None) \<and> non_terminal s \<and> select_Done env w d = None \<and>
      pending_polls c env tid d (Suc n) (Suc w) ss)"




section \<open>A sample environment\<close>

text \<open>
  An environment to run the client in: a server that answers the \<open>n\<close>-th round trip with
  the status code and the body \<open>replies n\<close>, a context whose \<^verbatim>\<open>select\<close> outcomes are \<open>done n\<close>, and
  decoders for the JSON documents of the test-suite. The decoders read the JSON grammar
  without \<^verbatim>\<open>\u\<close> escapes, match object keys to the struct tags ignoring ASCII case, and
  report a string, array or object of the wrong type as an error; \<open>sample_Marshal\<close> writes
  the body of a submission without options. They stand for \<^verbatim>\<open>encoding/json\<close> in the
  examples only: every statement below holds for all environments.
\<close>

definition json_space :: "char \<Rightarrow> bool" where
  "json_space c = (c = CHR 0x20 \<or> c = CHR 0x09 \<or> c = CHR 0x0D \<or> c = CHR 0x0A)"

definition json_digit :: "char \<Rightarrow> bool" where
  "json_digit c = (c \<in> set ''0123456789'')"

definition skip_space :: "string \<Rightarrow> string" where
  "skip_space cs = dropWhile json_space cs"

text \<open>The escapes \<^verbatim>\<open>\" \\ \/ \b \f \n \r \t\<close>.\<close>

definition unescape :: "char \<Rightarrow> char option" where
  "unescape e =
     (if e = CHR 0x22 \<or> e = CHR 0x5C \<or> e = CHR ''/'' then Some e
      else if e = CHR ''b'' then Some (CHR 0x08)
      else if e = CHR ''f'' then Some (CHR 0x0C)
      else if e = CHR ''n'' then Some (CHR 0x0A)
      else if e = CHR ''r'' then Some (CHR 0x0D)
      else if e = CHR ''t'' then Some (CHR 0x09)
      else None)"

fun scan_string :: "string \<Rightarrow> string \<Rightarrow> (string \<times> string) option" where
  "scan_string [] acc = None"
| "scan_string (c # cs) acc =
     (if c = CHR 0x22 then Some (acc, cs)
      else if c = CHR 0x5C then
        (case cs of
           [] \<Rightarrow> None
         | e # cs' \<Rightarrow> (case unescape e of None \<Rightarrow> None | Some u \<Rightarrow> scan_string cs' (acc @ [u])))
      else if (of_char c :: nat) < 0x20 then None
      else scan_string cs (acc @ [c]))"

definition scan_digits :: "string \<Rightarrow> (string \<times> string) option" where
  "scan_digits cs = (if takeWhile json_digit cs = [] then None
                     else Some (takeWhile json_digit cs, dropWhile json_digit cs))"

definition scan_number :: "string \<Rightarrow> (string \<times> string) option" where
  "scan_number cs =
     (let (sign, r0) = (if HasPrefix cs ''-'' then (''-'', drop 1 cs) else ([], cs)) in
      case (if HasPrefix r0 ''0'' then Some (''0'', drop 1 r0) else scan_digits r0) of
        None \<Rightarrow> None
      | Some (ip, r1) \<Rightarrow>
          (case (if HasPrefix r1 ''.''
                 then map_option (\<lambda>(ds, r). (''.'' @ ds, r)) (scan_digits (drop 1 r1))
                 else Some ([], r1)) of
             None \<Rightarrow> None
           | Some (fp, r2) \<Rightarrow>
               (if HasPrefix r2 ''e'' \<or> HasPrefix r2 ''E'' then
                  (let r3 = drop 1 r2;
                       (es, r4) = (if HasPrefix r3 ''+'' \<or> HasPrefix r3 ''-''
                                   then (take 1 r3, drop 1 r3) else ([], r3))
                   in map_option (\<lambda>(ds, r). (sign @ ip @ fp @ take 1 r2 @ es @ ds, r))
                        (scan_digits r4))
                else Some (sign @ ip @ fp, r2))))"

fun parse_value :: "nat \<Rightarrow> string \<Rightarrow> (json_value \<times> string) option"
  and parse_elements :: "nat \<Rightarrow> string \<Rightarrow> json_value list \<Rightarrow> (json_value list \<times> string) option"
  and parse_members ::
    "nat \<Rightarrow> string \<Rightarrow> (string \<times> json_value) list \<Rightarrow> ((string \<times> json_value) list \<times> string) option"
where
  "parse_value 0 cs = None"
| "parse_value (Suc n) cs =
     (case skip_space cs of
        [] \<Rightarrow> None
      | c # rest \<Rightarrow>
          if c = CHR 0x22 then map_option (\<lambda>(s, r). (JString s, r)) (scan_string rest [])
          else if c = CHR ''{'' then
            (if HasPrefix (skip_space rest) ''}'' then Some (JObject [], drop 1 (skip_space rest))
             else map_option (\<lambda>(kvs, r). (JObject kvs, r)) (parse_members n rest []))
          else if c = CHR ''['' then
            (if HasPrefix (skip_space rest) '']'' then Some (JArray [], drop 1 (skip_space rest))
             else map_option (\<lambda>(vs, r). (JArray vs, r)) (parse_elements n rest []))
          else if HasPrefix (c # rest) ''true'' then Some (JBool True, drop 4 (c # rest))
          else if HasPrefix (c # rest) ''false'' then Some (JBool False, drop 5 (c # rest))
          else if HasPrefix (c # rest) ''null'' then Some (JNull, drop 4 (c # rest))
          else map_option (\<lambda>(lit, r). (JNumber lit, r)) (scan_number (c # rest)))"
| "parse_elements 0 cs acc = None"
| "parse_elements (Suc n) cs acc =
     (case parse_value n cs of
        None \<Rightarrow> None
      | Some (v, r) \<Rightarrow>
          (if HasPrefix (skip_space r) '','' then parse_elements n (drop 1 (skip_space r)) (acc @ [v])
           else if HasPrefix (skip_space r) '']'' then Some (acc @ [v], drop 1 (skip_space r))
           else None))"
| "parse_members 0 cs acc = None"
| "parse_members (Suc n) cs acc =
     (if HasPrefix (skip_space cs) [CHR 0x22] then
        (case scan_string (drop 1 (skip_space cs)) [] of
           None \<Rightarrow> None
         | Some (k, r) \<Rightarrow>
             (if HasPrefix (skip_space r) '':'' then
                (case parse_value n (drop 1 (skip_space r)) of
                   None \<Rightarrow> None
                 | Some (v, r') \<Rightarrow>
                     (if HasPrefix (skip_space r') '','' then
                        parse_members n (drop 1 (skip_space r')) (acc @ [(k, v)])
                      else if HasPrefix (skip_space r') ''}'' then
                        Some (acc @ [(k, v)], drop 1 (skip_space r'))
                      else None))
              else None))
      else None)"

definition ascii_upper :: "char \<Rightarrow> char" where
  "ascii_upper c =
     (case map_of (zip ''abcdefghijklmnopqrstuvwxyz'' ''ABCDEFGHIJKLMNOPQRSTUVWXYZ'') c of
        None \<Rightarrow> c
      | Some u \<Rightarrow> u)"

definition names_field :: "string \<Rightarrow> string \<Rightarrow> bool" where
  "names_field k name = (map ascii_upper k = map ascii_upper name)"

fun as_string :: "json_value \<Rightarrow> string \<Rightarrow> string option" where
  "as_string (JString s) old = Some s"
| "as_string JNull old = Some old"
| "as_string _ old = None"

fun as_string_ptr :: "json_value \<Rightarrow> string option option" where
  "as_string_ptr (JString s) = Some (Some s)"
| "as_string_ptr JNull = Some None"
| "as_string_ptr _ = None"

fun as_strings :: "json_value \<Rightarrow> string list option" where
  "as_strings (JArray vs) =
     (if list_all (\<lambda>v. as_string v [] \<noteq> None) vs then Some (map (\<lambda>v. the (as_string v [])) vs)
      else None)"
| "as_strings JNull = Some []"
| "as_strings _ = None"

fun put :: "string \<Rightarrow> json_value \<Rightarrow> (string \<times> json_value) list \<Rightarrow> (string \<times> json_value) list" where
  "put k v [] = [(k, v)]"
| "put k v (kv # m) = (if fst kv = k then (k, v) # m else kv # put k v m)"

fun as_map :: "json_value \<Rightarrow> (string \<times> json_value) list \<Rightarrow> (string \<times> json_value) list option" where
  "as_map (JObject kvs) old = Some (foldl (\<lambda>m (k, v). put k v m) old kvs)"
| "as_map JNull old = Some []"
| "as_map _ old = None"

definition set_field :: "TaskStatus option \<Rightarrow> string \<times> json_value \<Rightarrow> TaskStatus option" where
  "set_field acc kv =
     (case acc of
        None \<Rightarrow> None
      | Some st \<Rightarrow>
          (let k = fst kv; v = snd kv in
           if names_field k ''taskId'' then map_option (\<lambda>x. st\<lparr>TaskID := x\<rparr>) (as_string v (TaskID st))
           else if names_field k ''status'' then
             map_option (\<lambda>x. st\<lparr>Status := x\<rparr>) (as_string v (Status st))
           else if names_field k ''result'' then map_option (\<lambda>x. st\<lparr>Result := x\<rparr>) (as_string_ptr v)
           else if names_field k ''error'' then map_option (\<lambda>x. st\<lparr>Error := x\<rparr>) (as_string_ptr v)
           else if names_field k ''warnings'' then map_option (\<lambda>x. st\<lparr>Warnings := x\<rparr>) (as_strings v)
           else if names_field k ''metadata'' then
             map_option (\<lambda>x. st\<lparr>Metadata := x\<rparr>) (as_map v (Metadata st))
           else Some st))"

definition into_TaskStatus :: "json_value \<Rightarrow> TaskStatus \<Rightarrow> error + TaskStatus" where
  "into_TaskStatus v target =
     (case v of
        JNull \<Rightarrow> Inr target
      | JObject kvs \<Rightarrow>
          (case foldl set_field (Some target) kvs of
             None \<Rightarrow> Inl (LibError ''json: cannot unmarshal value into Go struct field'')
           | Some st \<Rightarrow> Inr st)
      | _ \<Rightarrow> Inl (LibError ''json: cannot unmarshal value into Go value of type TaskStatus''))"

definition set_TaskID :: "string option \<Rightarrow> string \<times> json_value \<Rightarrow> string option" where
  "set_TaskID acc kv =
     (case acc of
        None \<Rightarrow> None
      | Some t \<Rightarrow> if names_field (fst kv) ''taskId'' then as_string (snd kv) t else Some t)"

definition into_TaskID :: "json_value \<Rightarrow> string \<Rightarrow> error + string" where
  "into_TaskID v target =
     (case v of
        JNull \<Rightarrow> Inr target
      | JObject kvs \<Rightarrow>
          (case foldl set_TaskID (Some target) kvs of
             None \<Rightarrow> Inl (LibError ''json: cannot unmarshal value into Go struct field'')
           | Some t \<Rightarrow> Inr t)
      | _ \<Rightarrow> Inl (LibError ''json: cannot unmarshal value into Go value of type struct''))"

definition sample_Unmarshal_TaskStatus :: "string \<Rightarrow> TaskStatus \<Rightarrow> error + TaskStatus" where
  "sample_Unmarshal_TaskStatus data target =
     (case parse_value (Suc (length data)) data of
        None \<Rightarrow> Inl (LibError ''json: syntax error'')
      | Some (v, rest) \<Rightarrow>
          if skip_space rest = [] then into_TaskStatus v target
          else Inl (LibError ''json: syntax error''))"

definition sample_Decode_TaskStatus :: "reader \<Rightarrow> TaskStatus \<Rightarrow> error + TaskStatus" where
  "sample_Decode_TaskStatus r target =
     (case parse_value (Suc (length (pending r))) (pending r) of
        None \<Rightarrow> Inl (if skip_space (pending r) = [] then at_end r else LibError ''json: syntax error'')
      | Some (v, rest) \<Rightarrow> into_TaskStatus v target)"

definition sample_Decode_TaskID :: "reader \<Rightarrow> string \<Rightarrow> error + string" where
  "sample_Decode_TaskID r target =
     (case parse_value (Suc (length (pending r))) (pending r) of
        None \<Rightarrow> Inl (if skip_space (pending r) = [] then at_end r else LibError ''json: syntax error'')
      | Some (v, rest) \<Rightarrow> into_TaskID v target)"

fun sample_quote :: "string \<Rightarrow> string" where
  "sample_quote [] = []"
| "sample_quote (c # cs) =
     (if c = CHR 0x22 \<or> c = CHR 0x5C then CHR 0x5C # c # sample_quote cs else c # sample_quote cs)"

fun sample_Marshal :: "req_body \<Rightarrow> error + string" where
  "sample_Marshal (SubmitBody prompt None) =
     Inr (''{'' @ [CHR 0x22] @ ''prompt'' @ [CHR 0x22] @ '':'' @
          [CHR 0x22] @ sample_quote prompt @ [CHR 0x22] @ ''}'')"
| "sample_Marshal (SubmitBody prompt (Some opts)) = Inl (LibError ''json: unsupported value'')"

definition sample_env :: "(nat \<Rightarrow> int \<times> string) \<Rightarrow> (nat \<Rightarrow> error option) \<Rightarrow> env" where
  "sample_env replies done =
     \<lparr>json_Marshal = sample_Marshal,
      http_NewRequest = (\<lambda>method url. None),
      http_Do = (\<lambda>n req. Inr \<lparr>StatusCode = fst (replies n), Header = [],
                                 Body = \<lparr>pending = snd (replies n), at_end = io_EOF\<rparr>\<rparr>),
      select_Done = (\<lambda>n d. done n),
      json_Decode_TaskID = sample_Decode_TaskID,
      json_Decode_TaskStatus = sample_Decode_TaskStatus,
      json_Unmarshal_TaskStatus = sample_Unmarshal_TaskStatus\<rparr>"

definition sample_client :: Client where
  "sample_client = \<lparr>apiKey = ''test-key'', baseURL = ''http://127.0.0.1'', timeout = 30000000000,
                     responseHook = False, mockMode = False\<rparr>"

text \<open>Replies of the server in the test-suite, and the statuses they decode to.\<close>

definition reply_processing :: "int \<times> string" where
  "reply_processing = (200, ''{\"taskId\": \"task-1\", \"status\": \"processing\"}'')"

definition reply_completed :: "int \<times> string" where
  "reply_completed = (200, ''{\"taskId\": \"task-1\", \"status\": \"completed\", \"result\": \"done\"}'')"

definition reply_failed :: "int \<times> string" where
  "reply_failed = (200, ''{\"taskId\": \"task-1\", \"status\": \"failed\", \"error\": \"test failure\"}'')"

definition reply_queued :: "int \<times> string" where
  "reply_queued = (200, ''{\"taskId\": \"task-1\", \"status\": \"queued\"}'')"

definition reply_error :: "int \<times> string" where
  "reply_error = (500, [])"

definition st_processing :: TaskStatus where
  "st_processing = TaskStatus0\<lparr>TaskID := ''task-1'', Status := ''processing''\<rparr>"

definition st_completed :: TaskStatus where
  "st_completed = TaskStatus0\<lparr>TaskID := ''task-1'', Status := ''completed'', Result := Some ''done''\<rparr>"

definition st_failed :: TaskStatus where
  "st_failed = TaskStatus0\<lparr>TaskID := ''task-1'', Status := ''failed'', Error := Some ''test failure''\<rparr>"

definition st_queued :: TaskStatus where
  "st_queued = TaskStatus0\<lparr>TaskID := ''task-1'', Status := ''queued''\<rparr>"




section \<open>Traces and single polls\<close>

lemma round_trips_append [simp]: "round_trips (xs @ ys) = round_trips xs + round_trips ys"
  by (simp add: round_trips_def)

lemma waits_append [simp]: "waits (xs @ ys) = waits xs + waits ys"
  by (simp add: waits_def)

lemma callbacks_append [simp]: "callbacks (xs @ ys) = callbacks xs @ callbacks ys"
  by (simp add: callbacks_def)

lemma counts_Nil [simp]: "round_trips [] = 0" "waits [] = 0" "callbacks [] = []"
  by (simp_all add: round_trips_def waits_def callbacks_def)

lemma counts_Cons [simp]:
  "round_trips (e # tr) = (if is_RoundTrip e then Suc (round_trips tr) else round_trips tr)"
  "waits (e # tr) = (if is_Wait e then Suc (waits tr) else waits tr)"
  "callbacks (e # tr) = callback_of e @ callbacks tr"
  by (simp_all add: round_trips_def waits_def callbacks_def)

lemma round_trips_replicate [simp]: "round_trips (replicate n (RoundTrip r)) = n"
  by (simp add: round_trips_def)

lemma doRequest_fst:
  "round_trips tr = round_trips tr' \<Longrightarrow>
   fst (doRequest c env m p b tr) = fst (doRequest c env m p b tr')"
  by (simp add: doRequest_def Let_def split: option.splits sum.splits)

lemma doRequest_ok:
  "fst (doRequest c env m p b tr) = Inr resp \<Longrightarrow>
   round_trips (snd (doRequest c env m p b tr)) = Suc (round_trips tr) \<and>
   waits (snd (doRequest c env m p b tr)) = waits tr \<and>
   callbacks (snd (doRequest c env m p b tr)) = callbacks tr"
  by (auto simp: doRequest_def Let_def split: option.splits sum.splits)

lemma doRequest_any:
  "round_trips (snd (doRequest c env m p b tr)) \<le> Suc (round_trips tr) \<and>
   round_trips tr \<le> round_trips (snd (doRequest c env m p b tr)) \<and>
   waits (snd (doRequest c env m p b tr)) = waits tr \<and>
   callbacks (snd (doRequest c env m p b tr)) = callbacks tr"
  by (auto simp: doRequest_def Let_def split: option.splits sum.splits)

lemma GetTaskStatus_fetch:
  "round_trips tr = n \<Longrightarrow> fst (GetTaskStatus c env tid tr) = status_fetch c env tid n"
proof -
  assume "round_trips tr = n"
  then have "fst (doRequest c env ''GET'' (''/status/'' @ tid) None tr) =
        fst (doRequest c env ''GET'' (''/status/'' @ tid) None
          (replicate n (RoundTrip \<lparr>Method = [], URL = [], ReqHeader = [], ReqBody = None\<rparr>)))"
    by (intro doRequest_fst) simp
  then show ?thesis
    unfolding status_fetch_def GetTaskStatus_def
    by (auto split: prod.splits sum.splits)
qed

lemma GetTaskStatus_ok:
  assumes "snd (fst (GetTaskStatus c env tid tr)) = None"
  shows "round_trips (snd (GetTaskStatus c env tid tr)) = Suc (round_trips tr) \<and>
         waits (snd (GetTaskStatus c env tid tr)) = waits tr \<and>
         callbacks (snd (GetTaskStatus c env tid tr)) = callbacks tr"
proof (cases "doRequest c env ''GET'' (''/status/'' @ tid) None tr")
  case (Pair r tr1)
  with assms obtain resp where r: "r = Inr resp"
    by (cases r) (auto simp: GetTaskStatus_def)
  from Pair r doRequest_ok [of c env "''GET''" "''/status/'' @ tid" None tr resp]
  have "round_trips tr1 = Suc (round_trips tr) \<and> waits tr1 = waits tr \<and> callbacks tr1 = callbacks tr"
    by simp
  with Pair r show ?thesis
    by (simp add: GetTaskStatus_def split: sum.splits)
qed

lemma GetTaskStatus_any:
  "round_trips (snd (GetTaskStatus c env tid tr)) \<le> Suc (round_trips tr) \<and>
   round_trips tr \<le> round_trips (snd (GetTaskStatus c env tid tr)) \<and>
   waits (snd (GetTaskStatus c env tid tr)) = waits tr \<and>
   callbacks (snd (GetTaskStatus c env tid tr)) = callbacks tr"
proof (cases "doRequest c env ''GET'' (''/status/'' @ tid) None tr")
  case (Pair r tr1)
  from Pair doRequest_any [of c env "''GET''" "''/status/'' @ tid" None tr]
  have "round_trips tr1 \<le> Suc (round_trips tr) \<and> round_trips tr \<le> round_trips tr1 \<and>
        waits tr1 = waits tr \<and> callbacks tr1 = callbacks tr"
    by simp
  with Pair show ?thesis
    by (simp add: GetTaskStatus_def split: sum.splits)
qed

lemma pollLoop_exhausted:
  "\<not> i < m \<Longrightarrow>
   pollLoop c env tid d m cb i tr = ((TaskStatus0, Some (Errorf ''task timed out'')), tr)"
  by (subst pollLoop.simps) simp

lemma pollLoop_fetch_error:
  assumes "i < m" and "status_fetch c env tid (round_trips tr) = (z, Some e)"
  shows "fst (pollLoop c env tid d m cb i tr) = (TaskStatus0, Some e) \<and>
         round_trips (snd (pollLoop c env tid d m cb i tr)) \<le> Suc (round_trips tr) \<and>
         waits (snd (pollLoop c env tid d m cb i tr)) = waits tr \<and>
         callbacks (snd (pollLoop c env tid d m cb i tr)) = callbacks tr"
proof -
  from assms(2) have "fst (GetTaskStatus c env tid tr) = (z, Some e)"
    by (simp add: GetTaskStatus_fetch)
  then have "pollLoop c env tid d m cb i tr = ((TaskStatus0, Some e), snd (GetTaskStatus c env tid tr))"
    using assms(1) by (subst pollLoop.simps) (simp add: Let_def)
  then show ?thesis using GetTaskStatus_any [of c env tid tr] by simp
qed

lemma pollLoop_completed:
  assumes "i < m" and "status_fetch c env tid (round_trips tr) = (s, None)"
    and "Status s = ''completed''"
  shows "fst (pollLoop c env tid d m cb i tr) = (s, None) \<and>
         round_trips (snd (pollLoop c env tid d m cb i tr)) = Suc (round_trips tr) \<and>
         waits (snd (pollLoop c env tid d m cb i tr)) = waits tr \<and>
         callbacks (snd (pollLoop c env tid d m cb i tr)) = callbacks tr @ (if cb then [s] else [])"
proof -
  from assms(2) have g: "fst (GetTaskStatus c env tid tr) = (s, None)"
    by (simp add: GetTaskStatus_fetch)
  then have "snd (fst (GetTaskStatus c env tid tr)) = None" by simp
  note ok = GetTaskStatus_ok [OF this]
  from g assms(1,3) have "pollLoop c env tid d m cb i tr =
      ((s, None), (if cb then snd (GetTaskStatus c env tid tr) @ [Callback s]
                   else snd (GetTaskStatus c env tid tr)))"
    by (subst pollLoop.simps) (simp add: Let_def)
  then show ?thesis using ok by simp
qed

lemma pollLoop_failed:
  assumes "i < m" and "status_fetch c env tid (round_trips tr) = (s, None)"
    and "Status s = ''failed''"
  shows "fst (pollLoop c env tid d m cb i tr) =
           (s, Some (Errorf (''task failed: '' @
                       (case Error s of None \<Rightarrow> ''task failed'' | Some msg \<Rightarrow> msg)))) \<and>
         round_trips (snd (pollLoop c env tid d m cb i tr)) = Suc (round_trips tr) \<and>
         waits (snd (pollLoop c env tid d m cb i tr)) = waits tr \<and>
         callbacks (snd (pollLoop c env tid d m cb i tr)) = callbacks tr @ (if cb then [s] else [])"
proof -
  from assms(2) have g: "fst (GetTaskStatus c env tid tr) = (s, None)"
    by (simp add: GetTaskStatus_fetch)
  then have "snd (fst (GetTaskStatus c env tid tr)) = None" by simp
  note ok = GetTaskStatus_ok [OF this]
  from g assms(1,3) have "pollLoop c env tid d m cb i tr =
      ((s, Some (Errorf (''task failed: '' @
                       (case Error s of None \<Rightarrow> ''task failed'' | Some msg \<Rightarrow> msg)))),
       (if cb then snd (GetTaskStatus c env tid tr) @ [Callback s]
        else snd (GetTaskStatus c env tid tr)))"
    by (subst pollLoop.simps) (simp add: Let_def)
  then show ?thesis using ok by simp
qed

lemma pollLoop_nonterminal:
  assumes "i < m" and "status_fetch c env tid (round_trips tr) = (s, None)"
    and "non_terminal s"
  shows "\<exists>tr'. round_trips tr' = Suc (round_trips tr) \<and> waits tr' = Suc (waits tr) \<and>
           callbacks tr' = callbacks tr @ (if cb then [s] else []) \<and>
           pollLoop c env tid d m cb i tr =
             (case select_Done env (waits tr) d of
                Some e \<Rightarrow> ((s, Some e), tr')
              | None \<Rightarrow> pollLoop c env tid d m cb (i + 1) tr')"
proof -
  from assms(2) have g: "fst (GetTaskStatus c env tid tr) = (s, None)"
    by (simp add: GetTaskStatus_fetch)
  then have "snd (fst (GetTaskStatus c env tid tr)) = None" by simp
  note ok = GetTaskStatus_ok [OF this]
  define tr2 where "tr2 = (if cb then snd (GetTaskStatus c env tid tr) @ [Callback s]
                           else snd (GetTaskStatus c env tid tr))"
  have w2: "waits tr2 = waits tr" using ok by (simp add: tr2_def)
  from g assms(1,3) have "pollLoop c env tid d m cb i tr =
      (case select_Done env (waits tr2) d of
         Some e \<Rightarrow> ((s, Some e), tr2 @ [Wait d])
       | None \<Rightarrow> pollLoop c env tid d m cb (i + 1) (tr2 @ [Wait d]))"
    by (subst pollLoop.simps) (simp add: Let_def non_terminal_def tr2_def split: option.splits)
  with w2 have "pollLoop c env tid d m cb i tr =
      (case select_Done env (waits tr) d of
         Some e \<Rightarrow> ((s, Some e), tr2 @ [Wait d])
       | None \<Rightarrow> pollLoop c env tid d m cb (i + 1) (tr2 @ [Wait d]))"
    by simp
  moreover have "round_trips (tr2 @ [Wait d]) = Suc (round_trips tr)"
    "waits (tr2 @ [Wait d]) = Suc (waits tr)"
    "callbacks (tr2 @ [Wait d]) = callbacks tr @ (if cb then [s] else [])"
    using ok by (simp_all add: tr2_def)
  ultimately show ?thesis by blast
qed

lemma pollLoop_skip:
  assumes "pending_polls c env tid d (round_trips tr) (waits tr) ss"
    and "i + int (length ss) \<le> m"
  shows "\<exists>tr'. round_trips tr' = round_trips tr + length ss \<and>
           waits tr' = waits tr + length ss \<and>
           callbacks tr' = callbacks tr @ (if cb then ss else []) \<and>
           pollLoop c env tid d m cb i tr = pollLoop c env tid d m cb (i + int (length ss)) tr'"
  using assms
proof (induction ss arbitrary: i tr)
  case Nil
  then show ?case by auto
next
  case (Cons s ss)
  from Cons.prems(1) have f: "status_fetch c env tid (round_trips tr) = (s, None)"
    and nt: "non_terminal s" and sel: "select_Done env (waits tr) d = None"
    and rest: "pending_polls c env tid d (Suc (round_trips tr)) (Suc (waits tr)) ss"
    by simp_all
  from Cons.prems(2) have lt: "i < m" by simp
  from pollLoop_nonterminal [OF lt f nt, where d = d and cb = cb] sel
  obtain tr1 where tr1: "round_trips tr1 = Suc (round_trips tr)" "waits tr1 = Suc (waits tr)"
      "callbacks tr1 = callbacks tr @ (if cb then [s] else [])"
      "pollLoop c env tid d m cb i tr = pollLoop c env tid d m cb (i + 1) tr1"
    by auto
  from rest tr1 have "pending_polls c env tid d (round_trips tr1) (waits tr1) ss" by simp
  moreover from Cons.prems(2) have "(i + 1) + int (length ss) \<le> m" by simp
  ultimately obtain tr' where tr': "round_trips tr' = round_trips tr1 + length ss"
      "waits tr' = waits tr1 + length ss"
      "callbacks tr' = callbacks tr1 @ (if cb then ss else [])"
      "pollLoop c env tid d m cb (i + 1) tr1 = pollLoop c env tid d m cb (i + 1 + int (length ss)) tr'"
    using Cons.IH [of tr1 "i + 1"] by blast
  have "i + 1 + int (length ss) = i + int (length (s # ss))" by simp
  with tr1 tr' show ?case
    by (intro exI [of _ tr']) (simp add: add.assoc)
qed

section \<open>Whole runs of the polling loop\<close>

lemma WaitForCompletion_skip:
  assumes "pending_polls c env tid (if pollInterval = 0 then DefaultPollInterval else pollInterval)
             (round_trips tr) (waits tr) ss"
    and "int (length ss) \<le> (if maxAttempts = 0 then DefaultMaxPoll else maxAttempts)"
  shows "\<exists>tr'. round_trips tr' = round_trips tr + length ss \<and>
           waits tr' = waits tr + length ss \<and>
           callbacks tr' = callbacks tr @ (if callback then ss else []) \<and>
           WaitForCompletion c env tid pollInterval maxAttempts callback tr =
             pollLoop c env tid (if pollInterval = 0 then DefaultPollInterval else pollInterval)
               (if maxAttempts = 0 then DefaultMaxPoll else maxAttempts) callback
               (int (length ss)) tr'"
proof -
  from assms(2) have "0 + int (length ss) \<le> (if maxAttempts = 0 then DefaultMaxPoll else maxAttempts)"
    by simp
  from pollLoop_skip [OF assms(1) this, where cb = callback]
  show ?thesis by (simp add: WaitForCompletion_def Let_def)
qed

lemma run_completed:
  assumes "int (length ss) < (if maxAttempts = 0 then DefaultMaxPoll else maxAttempts)"
    and "pending_polls c env tid (if pollInterval = 0 then DefaultPollInterval else pollInterval)
           (round_trips tr) (waits tr) ss"
    and "status_fetch c env tid (round_trips tr + length ss) = (s, None)"
    and "Status s = ''completed''"
  shows "fst (WaitForCompletion c env tid pollInterval maxAttempts callback tr) = (s, None) \<and>
         round_trips (snd (WaitForCompletion c env tid pollInterval maxAttempts callback tr)) =
           round_trips tr + length ss + 1 \<and>
         callbacks (snd (WaitForCompletion c env tid pollInterval maxAttempts callback tr)) =
           callbacks tr @ (if callback then ss @ [s] else [])"
proof -
  from assms(1) have "int (length ss) \<le> (if maxAttempts = 0 then DefaultMaxPoll else maxAttempts)"
    by simp
  from WaitForCompletion_skip [OF assms(2) this, where callback = callback]
  obtain tr' where tr': "round_trips tr' = round_trips tr + length ss"
      "callbacks tr' = callbacks tr @ (if callback then ss else [])"
      "WaitForCompletion c env tid pollInterval maxAttempts callback tr =
         pollLoop c env tid (if pollInterval = 0 then DefaultPollInterval else pollInterval)
           (if maxAttempts = 0 then DefaultMaxPoll else maxAttempts) callback
           (int (length ss)) tr'"
    by blast
  from assms(3) tr'(1) have "status_fetch c env tid (round_trips tr') = (s, None)" by simp
  from pollLoop_completed [OF assms(1) this assms(4), where cb = callback and
      d = "if pollInterval = 0 then DefaultPollInterval else pollInterval"] tr'
  show ?thesis by simp
qed

lemma run_failed:
  assumes "int (length ss) < (if maxAttempts = 0 then DefaultMaxPoll else maxAttempts)"
    and "pending_polls c env tid (if pollInterval = 0 then DefaultPollInterval else pollInterval)
           (round_trips tr) (waits tr) ss"
    and "status_fetch c env tid (round_trips tr + length ss) = (s, None)"
    and "Status s = ''failed''"
  shows "fst (WaitForCompletion c env tid pollInterval maxAttempts callback tr) =
           (s, Some (Errorf (''task failed: '' @
                       (case Error s of None \<Rightarrow> ''task failed'' | Some msg \<Rightarrow> msg)))) \<and>
         round_trips (snd (WaitForCompletion c env tid pollInterval maxAttempts callback tr)) =
           round_trips tr + length ss + 1 \<and>
         callbacks (snd (WaitForCompletion c env tid pollInterval maxAttempts callback tr)) =
           callbacks tr @ (if callback then ss @ [s] else [])"
proof -
  from assms(1) have "int (length ss) \<le> (if maxAttempts = 0 then DefaultMaxPoll else maxAttempts)"
    by simp
  from WaitForCompletion_skip [OF assms(2) this, where callback = callback]
  obtain tr' where tr': "round_trips tr' = round_trips tr + length ss"
      "callbacks tr' = callbacks tr @ (if callback then ss else [])"
      "WaitForCompletion c env tid pollInterval maxAttempts callback tr =
         pollLoop c env tid (if pollInterval = 0 then DefaultPollInterval else pollInterval)
           (if maxAttempts = 0 then DefaultMaxPoll else maxAttempts) callback
           (int (length ss)) tr'"
    by blast
  from assms(3) tr'(1) have "status_fetch c env tid (round_trips tr') = (s, None)" by simp
  from pollLoop_failed [OF assms(1) this assms(4), where cb = callback and
      d = "if pollInterval = 0 then DefaultPollInterval else pollInterval"] tr'
  show ?thesis by simp
qed

lemma run_cancelled:
  assumes "int (length ss) < (if maxAttempts = 0 then DefaultMaxPoll else maxAttempts)"
    and "pending_polls c env tid (if pollInterval = 0 then DefaultPollInterval else pollInterval)
           (round_trips tr) (waits tr) ss"
    and "status_fetch c env tid (round_trips tr + length ss) = (s, None)"
    and "non_terminal s"
    and "select_Done env (waits tr + length ss)
           (if pollInterval = 0 then DefaultPollInterval else pollInterval) = Some e"
  shows "fst (WaitForCompletion c env tid pollInterval maxAttempts callback tr) = (s, Some e) \<and>
         round_trips (snd (WaitForCompletion c env tid pollInterval maxAttempts callback tr)) =
           round_trips tr + length ss + 1 \<and>
         callbacks (snd (WaitForCompletion c env tid pollInterval maxAttempts callback tr)) =
           callbacks tr @ (if callback then ss @ [s] else [])"
proof -
  from assms(1) have "int (length ss) \<le> (if maxAttempts = 0 then DefaultMaxPoll else maxAttempts)"
    by simp
  from WaitForCompletion_skip [OF assms(2) this, where callback = callback]
  obtain tr' where tr': "round_trips tr' = round_trips tr + length ss"
      "waits tr' = waits tr + length ss"
      "callbacks tr' = callbacks tr @ (if callback then ss else [])"
      "WaitForCompletion c env tid pollInterval maxAttempts callback tr =
         pollLoop c env tid (if pollInterval = 0 then DefaultPollInterval else pollInterval)
           (if maxAttempts = 0 then DefaultMaxPoll else maxAttempts) callback
           (int (length ss)) tr'"
    by blast
  from assms(3) tr'(1) have "status_fetch c env tid (round_trips tr') = (s, None)" by simp
  from pollLoop_nonterminal [OF assms(1) this assms(4), where cb = callback and
      d = "if pollInterval = 0 then DefaultPollInterval else pollInterval"] assms(5) tr'
  show ?thesis by auto
qed

lemma run_fetch_error:
  assumes "int (length ss) < (if maxAttempts = 0 then DefaultMaxPoll else maxAttempts)"
    and "pending_polls c env tid (if pollInterval = 0 then DefaultPollInterval else pollInterval)
           (round_trips tr) (waits tr) ss"
    and "status_fetch c env tid (round_trips tr + length ss) = (z, Some e)"
  shows "fst (WaitForCompletion c env tid pollInterval maxAttempts callback tr) =
           (TaskStatus0, Some e)"
proof -
  from assms(1) have "int (length ss) \<le> (if maxAttempts = 0 then DefaultMaxPoll else maxAttempts)"
    by simp
  from WaitForCompletion_skip [OF assms(2) this, where callback = callback]
  obtain tr' where tr': "round_trips tr' = round_trips tr + length ss"
      "WaitForCompletion c env tid pollInterval maxAttempts callback tr =
         pollLoop c env tid (if pollInterval = 0 then DefaultPollInterval else pollInterval)
           (if maxAttempts = 0 then DefaultMaxPoll else maxAttempts) callback
           (int (length ss)) tr'"
    by blast
  from assms(3) tr'(1) have "status_fetch c env tid (round_trips tr') = (z, Some e)" by simp
  from pollLoop_fetch_error [OF assms(1) this, where cb = callback and
      d = "if pollInterval = 0 then DefaultPollInterval else pollInterval"] tr'
  show ?thesis by simp
qed

lemma run_timeout:
  assumes "length ss = nat (if maxAttempts = 0 then DefaultMaxPoll else maxAttempts)"
    and "pending_polls c env tid (if pollInterval = 0 then DefaultPollInterval else pollInterval)
           (round_trips tr) (waits tr) ss"
  shows "fst (WaitForCompletion c env tid pollInterval maxAttempts callback tr) =
           (TaskStatus0, Some (Errorf ''task timed out'')) \<and>
         round_trips (snd (WaitForCompletion c env tid pollInterval maxAttempts callback tr)) =
           round_trips tr + length ss \<and>
         callbacks (snd (WaitForCompletion c env tid pollInterval maxAttempts callback tr)) =
           callbacks tr @ (if callback then ss else [])"
proof (cases "0 \<le> (if maxAttempts = 0 then DefaultMaxPoll else maxAttempts)")
  case True
  with assms(1) have eq: "int (length ss) = (if maxAttempts = 0 then DefaultMaxPoll else maxAttempts)"
    by simp
  then have "int (length ss) \<le> (if maxAttempts = 0 then DefaultMaxPoll else maxAttempts)" by simp
  from WaitForCompletion_skip [OF assms(2) this, where callback = callback]
  obtain tr' where tr': "round_trips tr' = round_trips tr + length ss"
      "callbacks tr' = callbacks tr @ (if callback then ss else [])"
      "WaitForCompletion c env tid pollInterval maxAttempts callback tr =
         pollLoop c env tid (if pollInterval = 0 then DefaultPollInterval else pollInterval)
           (if maxAttempts = 0 then DefaultMaxPoll else maxAttempts) callback
           (int (length ss)) tr'"
    by blast
  from eq have "\<not> int (length ss) < (if maxAttempts = 0 then DefaultMaxPoll else maxAttempts)"
    by simp
  from pollLoop_exhausted [OF this] tr' show ?thesis by simp
next
  case False
  with assms(1) have ss: "ss = []" by simp
  from False have "\<not> 0 < (if maxAttempts = 0 then DefaultMaxPoll else maxAttempts)" by simp
  from pollLoop_exhausted [OF this] ss show ?thesis
    by (simp add: WaitForCompletion_def Let_def)
qed

section \<open>Reading lines\<close>










lemma Next_cancelled: "ctx_Err s = Some e \<Longrightarrow> Next env s = ((TaskStatus0, Some e), s)"
  by (subst Next.simps) simp




lemma sublist_after: "sublist m (p @ m)"
  by (rule suffix_imp_sublist) (simp add: suffix_def)






text \<open>In a string literal, \<^verbatim>\<open>\"\<close> is the one byte of the double quote.\<close>

lemma quote_byte: "''\"'' = [CHR 0x22]"
  by simp



section \<open>What follows a status that does not end the polling\<close>

lemma pending_polls_append:
  "pending_polls c env tid d n w (ss @ [s]) =
     (pending_polls c env tid d n w ss \<and> status_fetch c env tid (n + length ss) = (s, None) \<and>
      non_terminal s \<and> select_Done env (w + length ss) d = None)"
  by (induction ss arbitrary: n w) auto

lemma pollLoop_fetch_error_trace:
  assumes "i < m" and "status_fetch c env tid (round_trips tr) = (z, Some e)"
  shows "snd (pollLoop c env tid d m cb i tr) = snd (GetTaskStatus c env tid tr)"
proof -
  from assms(2) have "fst (GetTaskStatus c env tid tr) = (z, Some e)"
    by (simp add: GetTaskStatus_fetch)
  then show ?thesis using assms(1) by (subst pollLoop.simps) (simp add: Let_def)
qed

lemma pollLoop_extends:
  "round_trips tr \<le> round_trips (snd (pollLoop c env tid d m cb i tr)) \<and>
   (\<exists>xs. callbacks (snd (pollLoop c env tid d m cb i tr)) = callbacks tr @ xs)"
proof (induction "nat (m - i)" arbitrary: i tr)
  case 0
  then have "\<not> i < m" by simp
  from pollLoop_exhausted [OF this] show ?case by simp
next
  case (Suc k)
  then have lt: "i < m" by simp
  obtain z eo where f: "status_fetch c env tid (round_trips tr) = (z, eo)"
    by (cases "status_fetch c env tid (round_trips tr)")
  show ?case
  proof (cases eo)
    case (Some e)
    with f pollLoop_fetch_error_trace [OF lt, of c env tid tr z e d cb]
      GetTaskStatus_any [of c env tid tr]
    show ?thesis by simp
  next
    case None
    with f have f': "status_fetch c env tid (round_trips tr) = (z, None)" by simp
    consider "Status z = ''completed''" | "Status z = ''failed''" | "non_terminal z"
      by (auto simp: non_terminal_def)
    then show ?thesis
    proof cases
      case 1
      from pollLoop_completed [OF lt f' 1, of d cb] show ?thesis by simp
    next
      case 2
      from pollLoop_failed [OF lt f' 2, of d cb] show ?thesis by simp
    next
      case 3
      from pollLoop_nonterminal [OF lt f' 3, where d = d and cb = cb]
      obtain tr' where tr': "round_trips tr' = Suc (round_trips tr)"
          "callbacks tr' = callbacks tr @ (if cb then [z] else [])"
          "pollLoop c env tid d m cb i tr =
             (case select_Done env (waits tr) d of
                Some e \<Rightarrow> ((z, Some e), tr')
              | None \<Rightarrow> pollLoop c env tid d m cb (i + 1) tr')"
        by blast
      show ?thesis
      proof (cases "select_Done env (waits tr) d")
        case (Some e)
        with tr' show ?thesis by simp
      next
        case None
        from Suc.hyps(2) have "k = nat (m - (i + 1))" by simp
        from Suc.hyps(1) [OF this, of tr'] None tr' show ?thesis by auto
      qed
    qed
  qed
qed

lemma pollLoop_first:
  assumes "i < m" and "status_fetch c env tid (round_trips tr) = (s, None)"
  shows "Suc (round_trips tr) \<le> round_trips (snd (pollLoop c env tid d m cb i tr)) \<and>
         (\<exists>xs. callbacks (snd (pollLoop c env tid d m cb i tr)) =
                 callbacks tr @ (if cb then [s] else []) @ xs)"
proof -
  consider "Status s = ''completed''" | "Status s = ''failed''" | "non_terminal s"
    by (auto simp: non_terminal_def)
  then show ?thesis
  proof cases
    case 1
    from pollLoop_completed [OF assms 1, of d cb] show ?thesis by simp
  next
    case 2
    from pollLoop_failed [OF assms 2, of d cb] show ?thesis by simp
  next
    case 3
    from pollLoop_nonterminal [OF assms 3, where d = d and cb = cb]
    obtain tr' where tr': "round_trips tr' = Suc (round_trips tr)"
        "callbacks tr' = callbacks tr @ (if cb then [s] else [])"
        "pollLoop c env tid d m cb i tr =
           (case select_Done env (waits tr) d of
              Some e \<Rightarrow> ((s, Some e), tr')
            | None \<Rightarrow> pollLoop c env tid d m cb (i + 1) tr')"
      by blast
    show ?thesis
    proof (cases "select_Done env (waits tr) d")
      case (Some e)
      with tr' show ?thesis by simp
    next
      case None
      from pollLoop_extends [of tr' c env tid d m cb "i + 1"] None tr' show ?thesis by auto
    qed
  qed
qed

lemma run_continues:
  assumes "int (length ss) + 1 < (if maxAttempts = 0 then DefaultMaxPoll else maxAttempts)"
    and "pending_polls c env tid (if pollInterval = 0 then DefaultPollInterval else pollInterval)
           (round_trips tr) (waits tr) ss"
    and "status_fetch c env tid (round_trips tr + length ss) = (s, None)"
    and "non_terminal s"
    and "select_Done env (waits tr + length ss)
           (if pollInterval = 0 then DefaultPollInterval else pollInterval) = None"
  shows "\<exists>tr'. round_trips tr' = round_trips tr + (length ss + 1) \<and>
           waits tr' = waits tr + (length ss + 1) \<and>
           callbacks tr' = callbacks tr @ (if callback then ss @ [s] else []) \<and>
           WaitForCompletion c env tid pollInterval maxAttempts callback tr =
             pollLoop c env tid (if pollInterval = 0 then DefaultPollInterval else pollInterval)
               (if maxAttempts = 0 then DefaultMaxPoll else maxAttempts) callback
               (int (length ss) + 1) tr'"
proof -
  from assms(2-5) have p: "pending_polls c env tid
      (if pollInterval = 0 then DefaultPollInterval else pollInterval)
      (round_trips tr) (waits tr) (ss @ [s])"
    by (simp add: pending_polls_append)
  from assms(1) have "int (length (ss @ [s])) \<le>
      (if maxAttempts = 0 then DefaultMaxPoll else maxAttempts)"
    by simp
  from WaitForCompletion_skip [OF p this, where callback = callback]
  show ?thesis by (simp add: add.commute)
qed

lemma run_next_fetch:
  assumes "int (length ss) + 1 < (if maxAttempts = 0 then DefaultMaxPoll else maxAttempts)"
    and "pending_polls c env tid (if pollInterval = 0 then DefaultPollInterval else pollInterval)
           (round_trips tr) (waits tr) ss"
    and "status_fetch c env tid (round_trips tr + length ss) = (s, None)"
    and "non_terminal s"
    and "select_Done env (waits tr + length ss)
           (if pollInterval = 0 then DefaultPollInterval else pollInterval) = None"
    and "status_fetch c env tid (round_trips tr + (length ss + 1)) = (s', None)"
  shows "round_trips tr + (length ss + 2) \<le>
           round_trips (snd (WaitForCompletion c env tid pollInterval maxAttempts callback tr)) \<and>
         (\<exists>xs. callbacks (snd (WaitForCompletion c env tid pollInterval maxAttempts callback tr)) =
                 callbacks tr @ (if callback then ss @ [s, s'] else []) @ xs)"
proof -
  from run_continues [OF assms(1-5), where callback = callback]
  obtain tr' where tr': "round_trips tr' = round_trips tr + (length ss + 1)"
      "callbacks tr' = callbacks tr @ (if callback then ss @ [s] else [])"
      "WaitForCompletion c env tid pollInterval maxAttempts callback tr =
         pollLoop c env tid (if pollInterval = 0 then DefaultPollInterval else pollInterval)
           (if maxAttempts = 0 then DefaultMaxPoll else maxAttempts) callback
           (int (length ss) + 1) tr'"
    by blast
  from assms(6) tr'(1) have "status_fetch c env tid (round_trips tr') = (s', None)" by simp
  from pollLoop_first [OF assms(1) this, where cb = callback and
      d = "if pollInterval = 0 then DefaultPollInterval else pollInterval"] tr'
  show ?thesis by auto
qed

lemma run_last_attempt:
  assumes "int (length ss) < (if maxAttempts = 0 then DefaultMaxPoll else maxAttempts)"
    and "\<not> int (length ss) + 1 < (if maxAttempts = 0 then DefaultMaxPoll else maxAttempts)"
    and "pending_polls c env tid (if pollInterval = 0 then DefaultPollInterval else pollInterval)
           (round_trips tr) (waits tr) ss"
    and "status_fetch c env tid (round_trips tr + length ss) = (s, None)"
    and "non_terminal s"
    and "select_Done env (waits tr + length ss)
           (if pollInterval = 0 then DefaultPollInterval else pollInterval) = None"
  shows "fst (WaitForCompletion c env tid pollInterval maxAttempts callback tr) =
           (TaskStatus0, Some (Errorf ''task timed out'')) \<and>
         round_trips (snd (WaitForCompletion c env tid pollInterval maxAttempts callback tr)) =
           round_trips tr + (length ss + 1)"
proof -
  from assms(3-6) have p: "pending_polls c env tid
      (if pollInterval = 0 then DefaultPollInterval else pollInterval)
      (round_trips tr) (waits tr) (ss @ [s])"
    by (simp add: pending_polls_append)
  from assms(1,2) have "length (ss @ [s]) =
      nat (if maxAttempts = 0 then DefaultMaxPoll else maxAttempts)"
    by (simp split: if_splits)
  from run_timeout [OF this p, where callback = callback] show ?thesis by simp
qed

lemma run_callback:
  assumes "int (length ss) < (if maxAttempts = 0 then DefaultMaxPoll else maxAttempts)"
    and "pending_polls c env tid (if pollInterval = 0 then DefaultPollInterval else pollInterval)
           (round_trips tr) (waits tr) ss"
    and "status_fetch c env tid (round_trips tr + length ss) = (s, None)"
  shows "\<exists>xs. callbacks (snd (WaitForCompletion c env tid pollInterval maxAttempts callback tr)) =
                callbacks tr @ (if callback then ss @ [s] else []) @ xs"
proof -
  from assms(1) have "int (length ss) \<le> (if maxAttempts = 0 then DefaultMaxPoll else maxAttempts)"
    by simp
  from WaitForCompletion_skip [OF assms(2) this, where callback = callback]
  obtain tr' where tr': "round_trips tr' = round_trips tr + length ss"
      "callbacks tr' = callbacks tr @ (if callback then ss else [])"
      "WaitForCompletion c env tid pollInterval maxAttempts callback tr =
         pollLoop c env tid (if pollInterval = 0 then DefaultPollInterval else pollInterval)
           (if maxAttempts = 0 then DefaultMaxPoll else maxAttempts) callback
           (int (length ss)) tr'"
    by blast
  from assms(3) tr'(1) have "status_fetch c env tid (round_trips tr') = (s, None)" by simp
  from pollLoop_first [OF assms(1) this, where cb = callback and
      d = "if pollInterval = 0 then DefaultPollInterval else pollInterval"] tr'
  show ?thesis by auto
qed

lemma pollLoop_waits:
  "waits tr \<le> waits (snd (pollLoop c env tid d m cb i tr))"
proof (induction "nat (m - i)" arbitrary: i tr)
  case 0
  then have "\<not> i < m" by simp
  from pollLoop_exhausted [OF this] show ?case by simp
next
  case (Suc k)
  then have lt: "i < m" by simp
  obtain z eo where f: "status_fetch c env tid (round_trips tr) = (z, eo)"
    by (cases "status_fetch c env tid (round_trips tr)")
  show ?case
  proof (cases eo)
    case (Some e)
    with f pollLoop_fetch_error [OF lt, of c env tid tr z e d cb] show ?thesis by simp
  next
    case None
    with f have f': "status_fetch c env tid (round_trips tr) = (z, None)" by simp
    consider "Status z = ''completed''" | "Status z = ''failed''" | "non_terminal z"
      by (auto simp: non_terminal_def)
    then show ?thesis
    proof cases
      case 1
      from pollLoop_completed [OF lt f' 1, of d cb] show ?thesis by simp
    next
      case 2
      from pollLoop_failed [OF lt f' 2, of d cb] show ?thesis by simp
    next
      case 3
      from pollLoop_nonterminal [OF lt f' 3, where d = d and cb = cb]
      obtain tr' where tr': "waits tr' = Suc (waits tr)"
          "pollLoop c env tid d m cb i tr =
             (case select_Done env (waits tr) d of
                Some e \<Rightarrow> ((z, Some e), tr')
              | None \<Rightarrow> pollLoop c env tid d m cb (i + 1) tr')"
        by blast
      show ?thesis
      proof (cases "select_Done env (waits tr) d")
        case (Some e)
        with tr' show ?thesis by simp
      next
        case None
        from Suc.hyps(2) have "k = nat (m - (i + 1))" by simp
        from Suc.hyps(1) [OF this, of tr'] None tr' show ?thesis by simp
      qed
    qed
  qed
qed

lemma run_waits:
  assumes "int (length ss) < (if maxAttempts = 0 then DefaultMaxPoll else maxAttempts)"
    and "pending_polls c env tid (if pollInterval = 0 then DefaultPollInterval else pollInterval)
           (round_trips tr) (waits tr) ss"
    and "status_fetch c env tid (round_trips tr + length ss) = (s, None)"
    and "non_terminal s"
  shows "waits tr + (length ss + 1) \<le>
           waits (snd (WaitForCompletion c env tid pollInterval maxAttempts callback tr))"
proof -
  let ?d = "if pollInterval = 0 then DefaultPollInterval else pollInterval"
  let ?m = "if maxAttempts = 0 then DefaultMaxPoll else maxAttempts"
  from assms(1) have "int (length ss) \<le> ?m" by simp
  from WaitForCompletion_skip [OF assms(2) this, where callback = callback]
  obtain tr' where tr': "round_trips tr' = round_trips tr + length ss"
      "waits tr' = waits tr + length ss"
      "WaitForCompletion c env tid pollInterval maxAttempts callback tr =
         pollLoop c env tid ?d ?m callback (int (length ss)) tr'"
    by blast
  from assms(3) tr'(1) have "status_fetch c env tid (round_trips tr') = (s, None)" by simp
  from pollLoop_nonterminal [OF assms(1) this assms(4), where cb = callback and d = ?d]
  obtain tr2 where tr2: "waits tr2 = Suc (waits tr')"
      "pollLoop c env tid ?d ?m callback (int (length ss)) tr' =
         (case select_Done env (waits tr') ?d of
            Some e \<Rightarrow> ((s, Some e), tr2)
          | None \<Rightarrow> pollLoop c env tid ?d ?m callback (int (length ss) + 1) tr2)"
    by blast
  show ?thesis
  proof (cases "select_Done env (waits tr') ?d")
    case (Some e)
    with tr' tr2 show ?thesis by simp
  next
    case None
    from pollLoop_waits [of tr2 c env tid ?d ?m callback "int (length ss) + 1"] None tr' tr2
    show ?thesis by simp
  qed
qed

section \<open>The claims\<close>

text \<open>
  In the statements on \<^verbatim>\<open>WaitForCompletion\<close>, \<open>tr\<close> is the trace before the call and
  \<open>pending_polls \<dots> ss\<close> says that the first \<open>length ss\<close> polls of the call fetch the statuses
  \<open>ss\<close>, none of them \<^verbatim>\<open>completed\<close> or \<^verbatim>\<open>failed\<close>, and that the timer ends the wait after
  each of them: these are the runs in which a further poll, numbered \<open>length ss\<close>, is
  reached. The interval and the number of attempts are the values passed, or
  \<open>DefaultPollInterval\<close> and \<open>DefaultMaxPoll\<close> where 0 was passed.
\<close>

text \<open>
  C1, as stated, on the time-out: with one attempt and a server that answers
  \<^verbatim>\<open>processing\<close>, the fetch succeeds, and what \<^verbatim>\<open>WaitForCompletion\<close> returns with the
  time-out error is the zero \<^verbatim>\<open>TaskStatus\<close>, not the fetched status.
\<close>

theorem WaitForCompletion_last_status_counterexample:
  "status_fetch sample_client (sample_env (\<lambda>n. reply_processing) (\<lambda>n. None)) ''task-1'' 0 =
     (st_processing, None) \<and>
   fst (WaitForCompletion sample_client (sample_env (\<lambda>n. reply_processing) (\<lambda>n. None))
          ''task-1'' 1000000 1 False []) = (TaskStatus0, Some (Errorf ''task timed out'')) \<and>
   TaskStatus0 \<noteq> st_processing"
  by code_simp

text \<open>
  C1, amended. After polls as above: if the next poll fetches a \<^verbatim>\<open>completed\<close> status, a
  \<^verbatim>\<open>failed\<close> status, or another status followed by a wait in which the context is done,
  the \<^verbatim>\<open>TaskStatus\<close> returned is that last fetched status; if the next fetch fails, or if
  the attempts are used up, the \<^verbatim>\<open>TaskStatus\<close> returned with the error is the zero value,
  whatever was fetched before.
\<close>

theorem WaitForCompletion_returned_status:
  assumes "pending_polls c env tid (if pollInterval = 0 then DefaultPollInterval else pollInterval)
             (round_trips tr) (waits tr) ss"
  shows "(int (length ss) < (if maxAttempts = 0 then DefaultMaxPoll else maxAttempts) \<and>
          status_fetch c env tid (round_trips tr + length ss) = (s, None) \<and>
          Status s = ''completed'' \<longrightarrow>
            fst (WaitForCompletion c env tid pollInterval maxAttempts callback tr) = (s, None)) \<and>
         (int (length ss) < (if maxAttempts = 0 then DefaultMaxPoll else maxAttempts) \<and>
          status_fetch c env tid (round_trips tr + length ss) = (s, None) \<and>
          Status s = ''failed'' \<longrightarrow>
            fst (fst (WaitForCompletion c env tid pollInterval maxAttempts callback tr)) = s \<and>
            snd (fst (WaitForCompletion c env tid pollInterval maxAttempts callback tr)) \<noteq> None) \<and>
         (int (length ss) < (if maxAttempts = 0 then DefaultMaxPoll else maxAttempts) \<and>
          status_fetch c env tid (round_trips tr + length ss) = (s, None) \<and>
          non_terminal s \<and>
          select_Done env (waits tr + length ss)
            (if pollInterval = 0 then DefaultPollInterval else pollInterval) = Some e \<longrightarrow>
            fst (WaitForCompletion c env tid pollInterval maxAttempts callback tr) = (s, Some e)) \<and>
         (int (length ss) < (if maxAttempts = 0 then DefaultMaxPoll else maxAttempts) \<and>
          status_fetch c env tid (round_trips tr + length ss) = (z, Some e) \<longrightarrow>
            fst (WaitForCompletion c env tid pollInterval maxAttempts callback tr) =
              (TaskStatus0, Some e)) \<and>
         (length ss = nat (if maxAttempts = 0 then DefaultMaxPoll else maxAttempts) \<longrightarrow>
            fst (WaitForCompletion c env tid pollInterval maxAttempts callback tr) =
              (TaskStatus0, Some (Errorf ''task timed out'')))"
proof (intro conjI impI)
  assume a: "int (length ss) < (if maxAttempts = 0 then DefaultMaxPoll else maxAttempts) \<and>
          status_fetch c env tid (round_trips tr + length ss) = (s, None) \<and>
          Status s = ''completed''"
  from a run_completed [OF _ assms, where callback = callback and maxAttempts = maxAttempts and s = s]
  show "fst (WaitForCompletion c env tid pollInterval maxAttempts callback tr) = (s, None)"
    by blast
next
  assume a: "int (length ss) < (if maxAttempts = 0 then DefaultMaxPoll else maxAttempts) \<and>
          status_fetch c env tid (round_trips tr + length ss) = (s, None) \<and>
          Status s = ''failed''"
  from a run_failed [OF _ assms, where callback = callback and maxAttempts = maxAttempts and s = s]
  have f: "fst (WaitForCompletion c env tid pollInterval maxAttempts callback tr) =
           (s, Some (Errorf (''task failed: '' @
                       (case Error s of None \<Rightarrow> ''task failed'' | Some msg \<Rightarrow> msg))))"
    by blast
  from f show "fst (fst (WaitForCompletion c env tid pollInterval maxAttempts callback tr)) = s"
    by simp
  from f show "snd (fst (WaitForCompletion c env tid pollInterval maxAttempts callback tr)) \<noteq> None"
    by simp
next
  assume a: "int (length ss) < (if maxAttempts = 0 then DefaultMaxPoll else maxAttempts) \<and>
          status_fetch c env tid (round_trips tr + length ss) = (s, None) \<and>
          non_terminal s \<and>
          select_Done env (waits tr + length ss)
            (if pollInterval = 0 then DefaultPollInterval else pollInterval) = Some e"
  from a run_cancelled [OF _ assms, where callback = callback and maxAttempts = maxAttempts
      and s = s and e = e]
  show "fst (WaitForCompletion c env tid pollInterval maxAttempts callback tr) = (s, Some e)"
    by blast
next
  assume a: "int (length ss) < (if maxAttempts = 0 then DefaultMaxPoll else maxAttempts) \<and>
          status_fetch c env tid (round_trips tr + length ss) = (z, Some e)"
  from a run_fetch_error [OF _ assms, where callback = callback and maxAttempts = maxAttempts
      and z = z and e = e]
  show "fst (WaitForCompletion c env tid pollInterval maxAttempts callback tr) =
          (TaskStatus0, Some e)"
    by blast
next
  assume a: "length ss = nat (if maxAttempts = 0 then DefaultMaxPoll else maxAttempts)"
  from run_timeout [OF a assms, where callback = callback]
  show "fst (WaitForCompletion c env tid pollInterval maxAttempts callback tr) =
          (TaskStatus0, Some (Errorf ''task timed out''))"
    by blast
qed

theorem WaitForCompletion_returned_status_witness:
  "fst (WaitForCompletion sample_client
          (sample_env (\<lambda>n. if n = 0 then reply_processing else reply_completed) (\<lambda>n. None))
          ''task-1'' 1000000 2 False []) = (st_completed, None) \<and>
   fst (fst (WaitForCompletion sample_client
          (sample_env (\<lambda>n. if n = 0 then reply_processing else reply_failed) (\<lambda>n. None))
          ''task-1'' 1000000 2 False [])) = st_failed \<and>
   fst (WaitForCompletion sample_client
          (sample_env (\<lambda>n. if n = 0 then reply_processing else reply_queued)
             (\<lambda>n. if n = 0 then None else Some context_Canceled))
          ''task-1'' 1000000 2 False []) = (st_queued, Some context_Canceled) \<and>
   fst (WaitForCompletion sample_client
          (sample_env (\<lambda>n. if n = 0 then reply_processing else reply_error) (\<lambda>n. None))
          ''task-1'' 1000000 2 False []) =
     (TaskStatus0, Some (Errorf ''failed to get task status: status 500'')) \<and>
   fst (WaitForCompletion sample_client (sample_env (\<lambda>n. reply_processing) (\<lambda>n. None))
          ''task-1'' 1000000 1 False []) = (TaskStatus0, Some (Errorf ''task timed out''))"
proof -
  let ?c = "sample_env (\<lambda>n. if n = 0 then reply_processing else reply_completed) (\<lambda>n. None)"
  let ?f = "sample_env (\<lambda>n. if n = 0 then reply_processing else reply_failed) (\<lambda>n. None)"
  let ?q = "sample_env (\<lambda>n. if n = 0 then reply_processing else reply_queued)
              (\<lambda>n. if n = 0 then None else Some context_Canceled)"
  let ?e = "sample_env (\<lambda>n. if n = 0 then reply_processing else reply_error) (\<lambda>n. None)"
  let ?t = "sample_env (\<lambda>n. reply_processing) (\<lambda>n. None)"
  let ?d = "if (1000000::int) = 0 then DefaultPollInterval else 1000000"
  have lt: "int (length [st_processing]) < (if (2::int) = 0 then DefaultMaxPoll else 2)" by simp
  have pc: "pending_polls sample_client ?c ''task-1'' ?d (round_trips []) (waits []) [st_processing]"
    by code_simp
  have pf: "pending_polls sample_client ?f ''task-1'' ?d (round_trips []) (waits []) [st_processing]"
    by code_simp
  have pq: "pending_polls sample_client ?q ''task-1'' ?d (round_trips []) (waits []) [st_processing]"
    by code_simp
  have pe: "pending_polls sample_client ?e ''task-1'' ?d (round_trips []) (waits []) [st_processing]"
    by code_simp
  have pt: "pending_polls sample_client ?t ''task-1'' ?d (round_trips []) (waits []) [st_processing]"
    by code_simp
  have fc: "status_fetch sample_client ?c ''task-1'' (round_trips [] + length [st_processing]) =
              (st_completed, None)" "Status st_completed = ''completed''"
    by code_simp+
  have ff: "status_fetch sample_client ?f ''task-1'' (round_trips [] + length [st_processing]) =
              (st_failed, None)" "Status st_failed = ''failed''"
    by code_simp+
  have fq: "status_fetch sample_client ?q ''task-1'' (round_trips [] + length [st_processing]) =
              (st_queued, None)" "non_terminal st_queued"
           "select_Done ?q (waits [] + length [st_processing]) ?d = Some context_Canceled"
    by code_simp+
  have fe: "status_fetch sample_client ?e ''task-1'' (round_trips [] + length [st_processing]) =
              (TaskStatus0, Some (Errorf ''failed to get task status: status 500''))"
    by code_simp
  have lt1: "length [st_processing] = nat (if (1::int) = 0 then DefaultMaxPoll else 1)" by simp
  from WaitForCompletion_returned_status [OF pc, where maxAttempts = 2 and s = st_completed
      and callback = False] lt fc
  have 1: "fst (WaitForCompletion sample_client ?c ''task-1'' 1000000 2 False []) =
             (st_completed, None)"
    by blast
  from WaitForCompletion_returned_status [OF pf, where maxAttempts = 2 and s = st_failed
      and callback = False] lt ff
  have 2: "fst (fst (WaitForCompletion sample_client ?f ''task-1'' 1000000 2 False [])) = st_failed"
    by blast
  from WaitForCompletion_returned_status [OF pq, where maxAttempts = 2 and s = st_queued
      and e = context_Canceled and callback = False] lt fq
  have 3: "fst (WaitForCompletion sample_client ?q ''task-1'' 1000000 2 False []) =
             (st_queued, Some context_Canceled)"
    by blast
  from WaitForCompletion_returned_status [OF pe, where maxAttempts = 2 and z = TaskStatus0
      and e = "Errorf ''failed to get task status: status 500''" and callback = False] lt fe
  have 4: "fst (WaitForCompletion sample_client ?e ''task-1'' 1000000 2 False []) =
             (TaskStatus0, Some (Errorf ''failed to get task status: status 500''))"
    by blast
  from WaitForCompletion_returned_status [OF pt, where maxAttempts = 1 and callback = False] lt1
  have 5: "fst (WaitForCompletion sample_client ?t ''task-1'' 1000000 1 False []) =
             (TaskStatus0, Some (Errorf ''task timed out''))"
    by blast
  from 1 2 3 4 5 show ?thesis by (simp only: simp_thms)
qed

text \<open>
  C2. Let the polls of a call fetch the statuses \<open>ss\<close>, none of them \<^verbatim>\<open>completed\<close> or
  \<^verbatim>\<open>failed\<close>, each followed by a wait that the timer ends, and let the next poll fetch a
  status \<open>s\<close> that is \<^verbatim>\<open>completed\<close>, with \<open>length ss\<close> below the number of attempts (60 if
  0 was passed). Then \<^verbatim>\<open>WaitForCompletion\<close> returns \<open>s\<close> and no error after
  \<open>length ss + 1\<close> round trips, and a callback, if one was passed, was called with the
  statuses \<open>ss\<close> and then with \<open>s\<close>, in this order, and with nothing else.
\<close>

theorem WaitForCompletion_completed:
  assumes "int (length ss) < (if maxAttempts = 0 then DefaultMaxPoll else maxAttempts)"
    and "pending_polls c env tid (if pollInterval = 0 then DefaultPollInterval else pollInterval)
           (round_trips tr) (waits tr) ss"
    and "status_fetch c env tid (round_trips tr + length ss) = (s, None)"
    and "Status s = ''completed''"
  shows "fst (WaitForCompletion c env tid pollInterval maxAttempts callback tr) = (s, None) \<and>
         round_trips (snd (WaitForCompletion c env tid pollInterval maxAttempts callback tr)) =
           round_trips tr + (length ss + 1) \<and>
         callbacks (snd (WaitForCompletion c env tid pollInterval maxAttempts True tr)) =
           callbacks tr @ ss @ [s] \<and>
         callbacks (snd (WaitForCompletion c env tid pollInterval maxAttempts False tr)) =
           callbacks tr"
  using run_completed [OF assms, where callback = callback]
    run_completed [OF assms, where callback = True]
    run_completed [OF assms, where callback = False]
  by simp

theorem WaitForCompletion_completed_witness:
  "fst (WaitForCompletion sample_client
          (sample_env (\<lambda>n. if n < 1 then reply_processing else reply_completed) (\<lambda>n. None))
          ''task-1'' 1000000 5 True []) = (st_completed, None) \<and>
   round_trips (snd (WaitForCompletion sample_client
          (sample_env (\<lambda>n. if n < 1 then reply_processing else reply_completed) (\<lambda>n. None))
          ''task-1'' 1000000 5 True [])) = 2 \<and>
   callbacks (snd (WaitForCompletion sample_client
          (sample_env (\<lambda>n. if n < 1 then reply_processing else reply_completed) (\<lambda>n. None))
          ''task-1'' 1000000 5 True [])) = [st_processing, st_completed]"
proof -
  let ?env = "sample_env (\<lambda>n. if n < 1 then reply_processing else reply_completed) (\<lambda>n. None)"
  have h1: "int (length [st_processing]) < (if (5::int) = 0 then DefaultMaxPoll else 5)" by simp
  have h2: "pending_polls sample_client ?env ''task-1''
              (if (1000000::int) = 0 then DefaultPollInterval else 1000000)
              (round_trips []) (waits []) [st_processing]"
    by code_simp
  have h3: "status_fetch sample_client ?env ''task-1'' (round_trips [] + length [st_processing])
              = (st_completed, None)"
    by code_simp
  have h4: "Status st_completed = ''completed''" by code_simp
  from WaitForCompletion_completed [OF h1 h2 h3 h4, where callback = True]
  show ?thesis by simp
qed

text \<open>
  C3. If, after polls as above, the next poll fetches a status \<open>s\<close> that is \<^verbatim>\<open>failed\<close>, then
  \<^verbatim>\<open>WaitForCompletion\<close> ends with that poll: it returns \<open>s\<close> itself together with the error
  of message \<^verbatim>\<open>task failed: \<close> followed by the \<^verbatim>\<open>error\<close> field of \<open>s\<close> if it is set and by
  \<^verbatim>\<open>task failed\<close> if not; so the message contains the field.
\<close>

theorem WaitForCompletion_failed:
  assumes "int (length ss) < (if maxAttempts = 0 then DefaultMaxPoll else maxAttempts)"
    and "pending_polls c env tid (if pollInterval = 0 then DefaultPollInterval else pollInterval)
           (round_trips tr) (waits tr) ss"
    and "status_fetch c env tid (round_trips tr + length ss) = (s, None)"
    and "Status s = ''failed''"
  shows "fst (WaitForCompletion c env tid pollInterval maxAttempts callback tr) =
           (s, Some (Errorf (''task failed: '' @
                       (case Error s of None \<Rightarrow> ''task failed'' | Some msg \<Rightarrow> msg)))) \<and>
         sublist (case Error s of None \<Rightarrow> ''task failed'' | Some msg \<Rightarrow> msg)
           (Error_text (the (snd (fst
              (WaitForCompletion c env tid pollInterval maxAttempts callback tr))))) \<and>
         round_trips (snd (WaitForCompletion c env tid pollInterval maxAttempts callback tr)) =
           round_trips tr + (length ss + 1)"
proof -
  let ?msg = "case Error s of None \<Rightarrow> ''task failed'' | Some msg \<Rightarrow> msg"
  from run_failed [OF assms, where callback = callback]
  have r: "fst (WaitForCompletion c env tid pollInterval maxAttempts callback tr) =
             (s, Some (Errorf (''task failed: '' @ ?msg)))"
    and n: "round_trips (snd (WaitForCompletion c env tid pollInterval maxAttempts callback tr)) =
           round_trips tr + (length ss + 1)"
    by simp_all
  from r have "Error_text (the (snd (fst
       (WaitForCompletion c env tid pollInterval maxAttempts callback tr)))) =
       ''task failed: '' @ ?msg"
    by (simp only: snd_conv option.sel Error_text.simps)
  then have "sublist ?msg (Error_text (the (snd (fst
       (WaitForCompletion c env tid pollInterval maxAttempts callback tr)))))"
    by (simp only: sublist_after)
  with r n show ?thesis by (simp only: simp_thms)
qed

theorem WaitForCompletion_failed_witness:
  "fst (WaitForCompletion sample_client (sample_env (\<lambda>n. reply_failed) (\<lambda>n. None))
          ''task-1'' 1000000 1 False []) =
     (st_failed, Some (Errorf ''task failed: test failure'')) \<and>
   sublist ''test failure''
     (Error_text (the (snd (fst (WaitForCompletion sample_client
        (sample_env (\<lambda>n. reply_failed) (\<lambda>n. None)) ''task-1'' 1000000 1 False []))))) \<and>
   round_trips (snd (WaitForCompletion sample_client (sample_env (\<lambda>n. reply_failed) (\<lambda>n. None))
          ''task-1'' 1000000 1 False [])) = 1"
proof -
  let ?env = "sample_env (\<lambda>n. reply_failed) (\<lambda>n. None)"
  have h1: "int (length ([] :: TaskStatus list)) < (if (1::int) = 0 then DefaultMaxPoll else 1)"
    by simp
  have h2: "pending_polls sample_client ?env ''task-1''
              (if (1000000::int) = 0 then DefaultPollInterval else 1000000)
              (round_trips []) (waits []) []"
    by simp
  have h3: "status_fetch sample_client ?env ''task-1'' (round_trips [] + length ([] :: TaskStatus list))
              = (st_failed, None)"
    by code_simp
  have h4: "Status st_failed = ''failed''" by code_simp
  have h5: "Error st_failed = Some ''test failure''" by code_simp
  from WaitForCompletion_failed [OF h1 h2 h3 h4, where callback = False]
  show ?thesis by (elim conjE, intro conjI) (simp_all add: h5)
qed

text \<open>
  C4, as stated, at one attempt: the poll succeeds with a \<^verbatim>\<open>processing\<close> status and the
  context is cancelled during the wait that follows it. The call made its one round trip
  and ends with \<^verbatim>\<open>context canceled\<close>, not with the time-out.
\<close>

theorem WaitForCompletion_timeout_counterexample:
  "status_fetch sample_client (sample_env (\<lambda>n. reply_processing) (\<lambda>n. Some context_Canceled))
     ''task-1'' 0 = (st_processing, None) \<and>
   non_terminal st_processing \<and>
   round_trips (snd (WaitForCompletion sample_client
      (sample_env (\<lambda>n. reply_processing) (\<lambda>n. Some context_Canceled))
      ''task-1'' 1000000 1 False [])) = 1 \<and>
   fst (WaitForCompletion sample_client
      (sample_env (\<lambda>n. reply_processing) (\<lambda>n. Some context_Canceled))
      ''task-1'' 1000000 1 False []) = (st_processing, Some context_Canceled) \<and>
   Some context_Canceled \<noteq> Some (Errorf ''task timed out'')"
  by code_simp

text \<open>
  C4, amended. If as many polls as there are attempts (60 if 0 was passed) fetch statuses
  that are neither \<^verbatim>\<open>completed\<close> nor \<^verbatim>\<open>failed\<close>, and the timer ends the wait after each
  of them, the last one included, then \<^verbatim>\<open>WaitForCompletion\<close> makes exactly that many
  round trips and fails with the error \<^verbatim>\<open>task timed out\<close>.
\<close>

theorem WaitForCompletion_timeout:
  assumes "length ss = nat (if maxAttempts = 0 then DefaultMaxPoll else maxAttempts)"
    and "pending_polls c env tid (if pollInterval = 0 then DefaultPollInterval else pollInterval)
           (round_trips tr) (waits tr) ss"
  shows "fst (WaitForCompletion c env tid pollInterval maxAttempts callback tr) =
           (TaskStatus0, Some (Errorf ''task timed out'')) \<and>
         round_trips (snd (WaitForCompletion c env tid pollInterval maxAttempts callback tr)) =
           round_trips tr + length ss"
  using run_timeout [OF assms, where callback = callback] by simp

theorem WaitForCompletion_timeout_witness:
  "fst (WaitForCompletion sample_client (sample_env (\<lambda>n. reply_processing) (\<lambda>n. None))
          ''task-1'' 1000000 2 False []) = (TaskStatus0, Some (Errorf ''task timed out'')) \<and>
   round_trips (snd (WaitForCompletion sample_client (sample_env (\<lambda>n. reply_processing) (\<lambda>n. None))
          ''task-1'' 1000000 2 False [])) = 2"
proof -
  let ?env = "sample_env (\<lambda>n. reply_processing) (\<lambda>n. None)"
  have h1: "length [st_processing, st_processing] = nat (if (2::int) = 0 then DefaultMaxPoll else 2)"
    by simp
  have h2: "pending_polls sample_client ?env ''task-1''
              (if (1000000::int) = 0 then DefaultPollInterval else 1000000)
              (round_trips []) (waits []) [st_processing, st_processing]"
    by code_simp
  from WaitForCompletion_timeout [OF h1 h2, where callback = False]
  show ?thesis by simp
qed



text \<open>
  C6. If the context of the stream is done when \<^verbatim>\<open>Next\<close> is called, \<^verbatim>\<open>Next\<close> returns the
  context's error (\<^verbatim>\<open>context canceled\<close> after a cancellation) and the stream is unchanged:
  nothing was read from the connection and no buffered byte was used.
\<close>

theorem Next_context_done:
  assumes "ctx_Err s = Some e"
  shows "Next env s = ((TaskStatus0, Some e), s)"
  using assms by (rule Next_cancelled)

theorem Next_context_done_witness:
  "Next (sample_env (\<lambda>n. (200, [])) (\<lambda>n. None))
     \<lparr>taskID = ''t'', ctx_Err = Some context_Canceled,
      bufreader = \<lparr>pending = ''data: {}\<newline>'', at_end = io_EOF\<rparr>\<rparr> =
   ((TaskStatus0, Some context_Canceled),
    \<lparr>taskID = ''t'', ctx_Err = Some context_Canceled,
      bufreader = \<lparr>pending = ''data: {}\<newline>'', at_end = io_EOF\<rparr>\<rparr>)"
proof -
  have "ctx_Err \<lparr>taskID = ''t'', ctx_Err = Some context_Canceled,
      bufreader = \<lparr>pending = ''data: {}\<newline>'', at_end = io_EOF\<rparr>\<rparr> = Some context_Canceled"
    by simp
  then show ?thesis by (rule Next_context_done)
qed

text \<open>
  C7. If, after polls as above, a poll fetches a status that is neither \<^verbatim>\<open>completed\<close> nor
  \<^verbatim>\<open>failed\<close> and the context is done during the wait that follows, then
  \<^verbatim>\<open>WaitForCompletion\<close> returns that status with the error of the context, and the round
  trip of that poll was its last.
\<close>

theorem WaitForCompletion_cancelled:
  assumes "int (length ss) < (if maxAttempts = 0 then DefaultMaxPoll else maxAttempts)"
    and "pending_polls c env tid (if pollInterval = 0 then DefaultPollInterval else pollInterval)
           (round_trips tr) (waits tr) ss"
    and "status_fetch c env tid (round_trips tr + length ss) = (s, None)"
    and "non_terminal s"
    and "select_Done env (waits tr + length ss)
           (if pollInterval = 0 then DefaultPollInterval else pollInterval) = Some e"
  shows "fst (WaitForCompletion c env tid pollInterval maxAttempts callback tr) = (s, Some e) \<and>
         round_trips (snd (WaitForCompletion c env tid pollInterval maxAttempts callback tr)) =
           round_trips tr + (length ss + 1)"
  using run_cancelled [OF assms, where callback = callback] by simp

theorem WaitForCompletion_cancelled_witness:
  "fst (WaitForCompletion sample_client
          (sample_env (\<lambda>n. reply_processing) (\<lambda>n. if n < 1 then None else Some context_Canceled))
          ''task-1'' 50000000 5 False []) = (st_processing, Some context_Canceled) \<and>
   round_trips (snd (WaitForCompletion sample_client
          (sample_env (\<lambda>n. reply_processing) (\<lambda>n. if n < 1 then None else Some context_Canceled))
          ''task-1'' 50000000 5 False [])) = 2"
proof -
  let ?env = "sample_env (\<lambda>n. reply_processing) (\<lambda>n. if n < 1 then None else Some context_Canceled)"
  have h1: "int (length [st_processing]) < (if (5::int) = 0 then DefaultMaxPoll else 5)" by simp
  have h2: "pending_polls sample_client ?env ''task-1''
              (if (50000000::int) = 0 then DefaultPollInterval else 50000000)
              (round_trips []) (waits []) [st_processing]"
    by code_simp
  have h3: "status_fetch sample_client ?env ''task-1'' (round_trips [] + length [st_processing]) =
              (st_processing, None)"
    by code_simp
  have h4: "non_terminal st_processing" by code_simp
  have h5: "select_Done ?env (waits [] + length [st_processing])
              (if (50000000::int) = 0 then DefaultPollInterval else 50000000) = Some context_Canceled"
    by code_simp
  from WaitForCompletion_cancelled [OF h1 h2 h3 h4 h5, where callback = False]
  show ?thesis by simp
qed

text \<open>
  C8. For the empty prompt, whatever the options, \<^verbatim>\<open>SubmitTask\<close> returns the error
  \<^verbatim>\<open>prompt is required\<close> and leaves the trace as it was: no round trip is made.
\<close>

theorem SubmitTask_empty_prompt:
  "SubmitTask c env [] opts tr = (([], Some (Errorf ''prompt is required'')), tr) \<and>
   round_trips (snd (SubmitTask c env [] opts tr)) = round_trips tr"
  by (simp add: SubmitTask_def)

theorem SubmitTask_empty_prompt_witness:
  "SubmitTask sample_client (sample_env (\<lambda>n. (200, ''{}'')) (\<lambda>n. None)) []
     (Some \<lparr>ModelID = ''test-model'', Silent = False, Mock = False, VercelAIKey = [],
            OptMetadata = []\<rparr>) [] =
     (([], Some (Errorf ''prompt is required'')), [])"
  using SubmitTask_empty_prompt [of sample_client "sample_env (\<lambda>n. (200, ''{}'')) (\<lambda>n. None)"
      "Some \<lparr>ModelID = ''test-model'', Silent = False, Mock = False, VercelAIKey = [],
             OptMetadata = []\<rparr>" "[]"]
  by simp

text \<open>
  C9, as stated, on a status \<^verbatim>\<open>queued\<close>. With one attempt and a wait that the timer ends,
  the call makes its one round trip and returns the time-out error: no other iteration
  follows. With five attempts and a context that is done during the first wait, the call
  returns the status with \<^verbatim>\<open>context canceled\<close> after one round trip.
\<close>

theorem WaitForCompletion_other_status_counterexample:
  "status_fetch sample_client (sample_env (\<lambda>n. reply_queued) (\<lambda>n. None)) ''task-1'' 0 =
     (st_queued, None) \<and>
   Status st_queued \<noteq> ''completed'' \<and> Status st_queued \<noteq> ''failed'' \<and>
   fst (WaitForCompletion sample_client (sample_env (\<lambda>n. reply_queued) (\<lambda>n. None))
          ''task-1'' 1000000 1 True []) = (TaskStatus0, Some (Errorf ''task timed out'')) \<and>
   round_trips (snd (WaitForCompletion sample_client (sample_env (\<lambda>n. reply_queued) (\<lambda>n. None))
          ''task-1'' 1000000 1 True [])) = 1 \<and>
   fst (WaitForCompletion sample_client
          (sample_env (\<lambda>n. reply_queued) (\<lambda>n. Some context_Canceled))
          ''task-1'' 1000000 5 True []) = (st_queued, Some context_Canceled) \<and>
   round_trips (snd (WaitForCompletion sample_client
          (sample_env (\<lambda>n. reply_queued) (\<lambda>n. Some context_Canceled))
          ''task-1'' 1000000 5 True [])) = 1"
  by code_simp

text \<open>
  C9, amended. Let a poll of \<^verbatim>\<open>WaitForCompletion\<close>, reached as above, fetch a status
  whose \<^verbatim>\<open>status\<close> string is neither \<^verbatim>\<open>completed\<close> nor \<^verbatim>\<open>failed\<close>, unknown values
  included. Then the callback gets the status as it was decoded and the call goes on to
  the wait. If the timer ends the wait and attempts remain, the loop runs its next
  iteration, and a status which that iteration fetches comes after a further round trip
  and goes to the callback next. If the timer ends the wait and the attempt was the
  last, the call fails with the time-out. If the context is done during the wait, the
  call returns the same status with the context's error. In the last two cases the round
  trip of that poll was the last.
\<close>

theorem WaitForCompletion_other_status:
  assumes "int (length ss) < (if maxAttempts = 0 then DefaultMaxPoll else maxAttempts)"
    and "pending_polls c env tid (if pollInterval = 0 then DefaultPollInterval else pollInterval)
           (round_trips tr) (waits tr) ss"
    and "status_fetch c env tid (round_trips tr + length ss) = (s, None)"
    and "Status s \<noteq> ''completed''" and "Status s \<noteq> ''failed''"
  shows "(\<exists>xs. callbacks (snd (WaitForCompletion c env tid pollInterval maxAttempts True tr)) =
                 callbacks tr @ ss @ [s] @ xs) \<and>
         waits tr + (length ss + 1) \<le>
           waits (snd (WaitForCompletion c env tid pollInterval maxAttempts callback tr)) \<and>
         (select_Done env (waits tr + length ss)
            (if pollInterval = 0 then DefaultPollInterval else pollInterval) = None \<and>
          int (length ss) + 1 < (if maxAttempts = 0 then DefaultMaxPoll else maxAttempts) \<longrightarrow>
            (\<exists>tr'. round_trips tr' = round_trips tr + (length ss + 1) \<and>
                   waits tr' = waits tr + (length ss + 1) \<and>
                   callbacks tr' = callbacks tr @ (if callback then ss @ [s] else []) \<and>
                   WaitForCompletion c env tid pollInterval maxAttempts callback tr =
                     pollLoop c env tid
                       (if pollInterval = 0 then DefaultPollInterval else pollInterval)
                       (if maxAttempts = 0 then DefaultMaxPoll else maxAttempts) callback
                       (int (length ss) + 1) tr')) \<and>
         (select_Done env (waits tr + length ss)
            (if pollInterval = 0 then DefaultPollInterval else pollInterval) = None \<and>
          int (length ss) + 1 < (if maxAttempts = 0 then DefaultMaxPoll else maxAttempts) \<and>
          status_fetch c env tid (round_trips tr + (length ss + 1)) = (s', None) \<longrightarrow>
            round_trips tr + (length ss + 2) \<le>
              round_trips (snd (WaitForCompletion c env tid pollInterval maxAttempts callback tr)) \<and>
            (\<exists>xs. callbacks (snd (WaitForCompletion c env tid pollInterval maxAttempts True tr)) =
                    callbacks tr @ ss @ [s, s'] @ xs)) \<and>
         (select_Done env (waits tr + length ss)
            (if pollInterval = 0 then DefaultPollInterval else pollInterval) = None \<and>
          \<not> int (length ss) + 1 < (if maxAttempts = 0 then DefaultMaxPoll else maxAttempts) \<longrightarrow>
            fst (WaitForCompletion c env tid pollInterval maxAttempts callback tr) =
              (TaskStatus0, Some (Errorf ''task timed out'')) \<and>
            round_trips (snd (WaitForCompletion c env tid pollInterval maxAttempts callback tr)) =
              round_trips tr + (length ss + 1)) \<and>
         (select_Done env (waits tr + length ss)
            (if pollInterval = 0 then DefaultPollInterval else pollInterval) = Some e \<longrightarrow>
            fst (WaitForCompletion c env tid pollInterval maxAttempts callback tr) = (s, Some e) \<and>
            round_trips (snd (WaitForCompletion c env tid pollInterval maxAttempts callback tr)) =
              round_trips tr + (length ss + 1))"
proof -
  let ?d = "if pollInterval = 0 then DefaultPollInterval else pollInterval"
  let ?m = "if maxAttempts = 0 then DefaultMaxPoll else maxAttempts"
  from assms(4,5) have nt: "non_terminal s" by (simp add: non_terminal_def)
  from run_callback [OF assms(1-3), where callback = True]
  have 1: "\<exists>xs. callbacks (snd (WaitForCompletion c env tid pollInterval maxAttempts True tr)) =
                 callbacks tr @ ss @ [s] @ xs"
    by simp
  note 2 = run_waits [OF assms(1-3) nt, where callback = callback]
  have 3: "\<exists>tr'. round_trips tr' = round_trips tr + (length ss + 1) \<and>
                   waits tr' = waits tr + (length ss + 1) \<and>
                   callbacks tr' = callbacks tr @ (if callback then ss @ [s] else []) \<and>
                   WaitForCompletion c env tid pollInterval maxAttempts callback tr =
                     pollLoop c env tid ?d ?m callback (int (length ss) + 1) tr'"
    if "select_Done env (waits tr + length ss) ?d = None \<and> int (length ss) + 1 < ?m"
    using that run_continues [OF _ assms(2,3) nt, where callback = callback
        and maxAttempts = maxAttempts]
    by blast
  have 4: "round_trips tr + (length ss + 2) \<le>
              round_trips (snd (WaitForCompletion c env tid pollInterval maxAttempts callback tr)) \<and>
            (\<exists>xs. callbacks (snd (WaitForCompletion c env tid pollInterval maxAttempts True tr)) =
                    callbacks tr @ ss @ [s, s'] @ xs)"
    if a: "select_Done env (waits tr + length ss) ?d = None \<and> int (length ss) + 1 < ?m \<and>
        status_fetch c env tid (round_trips tr + (length ss + 1)) = (s', None)"
  proof -
    from a have lt: "int (length ss) + 1 < ?m"
      and sel: "select_Done env (waits tr + length ss) ?d = None"
      and f: "status_fetch c env tid (round_trips tr + (length ss + 1)) = (s', None)"
      by blast+
    from run_next_fetch [OF lt assms(2,3) nt sel f, where callback = callback]
      run_next_fetch [OF lt assms(2,3) nt sel f, where callback = True]
    show ?thesis by simp
  qed
  have 5: "fst (WaitForCompletion c env tid pollInterval maxAttempts callback tr) =
              (TaskStatus0, Some (Errorf ''task timed out'')) \<and>
            round_trips (snd (WaitForCompletion c env tid pollInterval maxAttempts callback tr)) =
              round_trips tr + (length ss + 1)"
    if a: "select_Done env (waits tr + length ss) ?d = None \<and> \<not> int (length ss) + 1 < ?m"
  proof -
    from a have last: "\<not> int (length ss) + 1 < ?m"
      and sel: "select_Done env (waits tr + length ss) ?d = None"
      by blast+
    from run_last_attempt [OF assms(1) last assms(2,3) nt sel, where callback = callback]
    show ?thesis .
  qed
  have 6: "fst (WaitForCompletion c env tid pollInterval maxAttempts callback tr) = (s, Some e) \<and>
            round_trips (snd (WaitForCompletion c env tid pollInterval maxAttempts callback tr)) =
              round_trips tr + (length ss + 1)"
    if "select_Done env (waits tr + length ss) ?d = Some e"
    using run_cancelled [OF assms(1-3) nt that, where callback = callback] by simp
  from 1 2 3 4 5 6 show ?thesis by blast
qed

theorem WaitForCompletion_other_status_witness:
  "(\<exists>xs. callbacks (snd (WaitForCompletion sample_client
       (sample_env (\<lambda>n. if n = 0 then reply_queued else reply_completed) (\<lambda>n. None))
       ''task-1'' 1000000 3 True [])) = [st_queued, st_completed] @ xs) \<and>
   2 \<le> round_trips (snd (WaitForCompletion sample_client
       (sample_env (\<lambda>n. if n = 0 then reply_queued else reply_completed) (\<lambda>n. None))
       ''task-1'' 1000000 3 True [])) \<and>
   1 \<le> waits (snd (WaitForCompletion sample_client
       (sample_env (\<lambda>n. if n = 0 then reply_queued else reply_completed) (\<lambda>n. None))
       ''task-1'' 1000000 3 True [])) \<and>
   fst (WaitForCompletion sample_client (sample_env (\<lambda>n. reply_queued) (\<lambda>n. None))
          ''task-1'' 1000000 1 True []) = (TaskStatus0, Some (Errorf ''task timed out'')) \<and>
   fst (WaitForCompletion sample_client
          (sample_env (\<lambda>n. reply_queued) (\<lambda>n. Some context_Canceled))
          ''task-1'' 1000000 3 True []) = (st_queued, Some context_Canceled)"
proof -
  let ?a = "sample_env (\<lambda>n. if n = 0 then reply_queued else reply_completed) (\<lambda>n. None)"
  let ?b = "sample_env (\<lambda>n. reply_queued) (\<lambda>n. None)"
  let ?c = "sample_env (\<lambda>n. reply_queued) (\<lambda>n. Some context_Canceled)"
  let ?d = "if (1000000::int) = 0 then DefaultPollInterval else 1000000"
  let ?no = "[] :: TaskStatus list"
  have p: "pending_polls sample_client env ''task-1'' ?d (round_trips []) (waits []) ?no" for env
    by simp
  have lt3: "int (length ?no) < (if (3::int) = 0 then DefaultMaxPoll else 3)"
    and lt1: "int (length ?no) < (if (1::int) = 0 then DefaultMaxPoll else 1)"
    and more: "int (length ?no) + 1 < (if (3::int) = 0 then DefaultMaxPoll else 3)"
    and last: "\<not> int (length ?no) + 1 < (if (1::int) = 0 then DefaultMaxPoll else 1)"
    by simp_all
  have q: "Status st_queued \<noteq> ''completed''" "Status st_queued \<noteq> ''failed''" by code_simp+
  have fa: "status_fetch sample_client ?a ''task-1'' (round_trips [] + length ?no) = (st_queued, None)"
    and fa': "status_fetch sample_client ?a ''task-1'' (round_trips [] + (length ?no + 1)) =
               (st_completed, None)"
    and sa: "select_Done ?a (waits [] + length ?no) ?d = None"
    by code_simp+
  have fb: "status_fetch sample_client ?b ''task-1'' (round_trips [] + length ?no) = (st_queued, None)"
    and sb: "select_Done ?b (waits [] + length ?no) ?d = None"
    by code_simp+
  have fc: "status_fetch sample_client ?c ''task-1'' (round_trips [] + length ?no) = (st_queued, None)"
    and sc: "select_Done ?c (waits [] + length ?no) ?d = Some context_Canceled"
    by code_simp+
  from WaitForCompletion_other_status [OF lt3 p fa q, where callback = True and s' = st_completed]
    sa more fa'
  have 1: "(\<exists>xs. callbacks (snd (WaitForCompletion sample_client ?a ''task-1'' 1000000 3 True [])) =
              [st_queued, st_completed] @ xs) \<and>
           2 \<le> round_trips (snd (WaitForCompletion sample_client ?a ''task-1'' 1000000 3 True [])) \<and>
           1 \<le> waits (snd (WaitForCompletion sample_client ?a ''task-1'' 1000000 3 True []))"
    by simp
  from WaitForCompletion_other_status [OF lt1 p fb q, where callback = True] sb last
  have 2: "fst (WaitForCompletion sample_client ?b ''task-1'' 1000000 1 True []) =
             (TaskStatus0, Some (Errorf ''task timed out''))"
    by blast
  from WaitForCompletion_other_status [OF lt3 p fc q, where callback = True
      and e = context_Canceled] sc
  have 3: "fst (WaitForCompletion sample_client ?c ''task-1'' 1000000 3 True []) =
             (st_queued, Some context_Canceled)"
    by blast
  from 1 2 3 show ?thesis by (simp only: simp_thms)
qed

text \<open>
  C10. If the submission gets a response with status 200 or 202 and decoding its body
  succeeds and leaves the \<^verbatim>\<open>TaskID\<close> field of the zero-valued result as it was (what
  \<^verbatim>\<open>encoding/json\<close> does for an object without the key), then \<^verbatim>\<open>SubmitTask\<close> returns the
  empty string as the task identifier and no error.
\<close>

theorem SubmitTask_no_taskId:
  assumes "prompt \<noteq> []"
    and "fst (doRequest c env ''POST'' ''/run'' (Some (SubmitBody prompt opts)) tr) = Inr resp"
    and "StatusCode resp = 200 \<or> StatusCode resp = 202"
    and "json_Decode_TaskID env (Body resp) [] = Inr []"
  shows "fst (SubmitTask c env prompt opts tr) = ([], None)"
  using assms by (auto simp: SubmitTask_def split: prod.splits sum.splits)

theorem SubmitTask_no_taskId_witness:
  "fst (doRequest sample_client (sample_env (\<lambda>n. (202, ''{}'')) (\<lambda>n. None)) ''POST'' ''/run''
          (Some (SubmitBody ''hello'' None)) []) =
     Inr \<lparr>StatusCode = 202, Header = [], Body = \<lparr>pending = ''{}'', at_end = io_EOF\<rparr>\<rparr> \<and>
   json_Decode_TaskID (sample_env (\<lambda>n. (202, ''{}'')) (\<lambda>n. None))
     \<lparr>pending = ''{}'', at_end = io_EOF\<rparr> [] = Inr [] \<and>
   fst (SubmitTask sample_client (sample_env (\<lambda>n. (202, ''{}'')) (\<lambda>n. None)) ''hello'' None []) =
     ([], None)"
proof -
  let ?env = "sample_env (\<lambda>n. (202, ''{}'')) (\<lambda>n. None)"
  let ?resp = "\<lparr>StatusCode = 202, Header = [], Body = \<lparr>pending = ''{}'', at_end = io_EOF\<rparr>\<rparr>"
  have h1: "''hello'' \<noteq> []" by simp
  have h2: "fst (doRequest sample_client ?env ''POST'' ''/run'' (Some (SubmitBody ''hello'' None)) [])
              = Inr ?resp"
    by code_simp
  have h3: "StatusCode ?resp = 200 \<or> StatusCode ?resp = 202" by simp
  have h4: "json_Decode_TaskID ?env (Body ?resp) [] = Inr []" by code_simp
  from SubmitTask_no_taskId [OF h1 h2 h3 h4] h2 h4 show ?thesis by simp
qed

end
